theory Spec2Isabelle
  imports Main
begin

section \<open>The fixture generator \<^verbatim>\<open>scripts/generate-test.go\<close>\<close>

text \<open>
  The program is a command: it reads its arguments, looks at files under
  \<^verbatim>\<open>test-pages\<close>, may fetch a page over HTTP, calls the extraction engine and writes
  two files. The model threads a \<open>world\<close> (the file tree and the trace of the input and
  output operations performed so far) through every function, and takes everything the
  program does not define itself (the URL validator, the HTTP client, the DOM parser, the
  extraction engine, the renderer, the JSON string encoder, the directory listing and
  the failures of the operating system) from an \<open>env\<close>, so that every theorem
  holds for every behaviour of these collaborators.
\<close>

subsection \<open>Errors\<close>

text \<open>
  A Go \<^verbatim>\<open>error\<close>. \<open>NotExist\<close> is an error for which \<^verbatim>\<open>os.IsNotExist\<close> answers true,
  \<open>Cause\<close> any other error of a library or of the operating system, and
  \<open>Wrap m e\<close> the value of \<^verbatim>\<open>fmt.Errorf(m + ": %v", e)\<close>. A function that returns
  \<^verbatim>\<open>error\<close> returns \<open>err option\<close>, \<open>None\<close> being \<^verbatim>\<open>nil\<close>.
\<close>

datatype err = NotExist | Cause string | Wrap string err

definition os_IsNotExist :: "err option \<Rightarrow> bool" where
  "os_IsNotExist e \<longleftrightarrow> e = Some NotExist"

subsection \<open>Paths\<close>

text \<open>
  \<^verbatim>\<open>filepath.Join\<close> joins its non-empty elements with a slash and cleans the result
  (\<^verbatim>\<open>filepath.Clean\<close>). A cleaned path is held as the list of its components and a flag
  for a leading slash; \<open>Path False []\<close> is \<^verbatim>\<open>.\<close> and \<open>Path True []\<close> is \<^verbatim>\<open>/\<close>.
  \<open>clean_elem\<close> is one step of \<^verbatim>\<open>Clean\<close> on a stack of components (the last one
  first): an empty component or \<^verbatim>\<open>.\<close> is dropped, \<^verbatim>\<open>..\<close> removes the component
  before it, is dropped at the root and is kept at the start of a relative path.
\<close>

datatype path = Path (rooted: bool) (comps: "string list")

fun split_sep :: "string \<Rightarrow> string list" where
  "split_sep [] = [[]]"
| "split_sep (c # cs) =
     (if c = CHR ''/'' then [] # split_sep cs
      else (case split_sep cs of [] \<Rightarrow> [[c]] | w # ws \<Rightarrow> (c # w) # ws))"

fun clean_elem :: "bool \<Rightarrow> string list \<Rightarrow> string \<Rightarrow> string list" where
  "clean_elem r st c =
     (if c = [] \<or> c = ''.'' then st
      else if c = ''..'' then
        (case st of
           [] \<Rightarrow> if r then [] else [''..'']
         | d # ds \<Rightarrow> if d = ''..'' then ''..'' # st else ds)
      else c # st)"

definition join_elems :: "string list \<Rightarrow> string list" where
  "join_elems elem = concat (map split_sep (filter (\<lambda>e. e \<noteq> []) elem))"

definition fp_Join :: "string list \<Rightarrow> path" where
  "fp_Join elem =
     (let r = (case filter (\<lambda>e. e \<noteq> []) elem of [] \<Rightarrow> False | e # _ \<Rightarrow> hd e = CHR ''/'')
      in Path r (rev (foldl (clean_elem r) [] (join_elems elem))))"

text \<open>\<^verbatim>\<open>filepath.Join(dir, elem...)\<close> where \<open>dir\<close> is a path already cleaned.\<close>

definition fp_Join_dir :: "path \<Rightarrow> string list \<Rightarrow> path" where
  "fp_Join_dir d elem =
     Path (rooted d) (rev (foldl (clean_elem (rooted d)) (rev (comps d)) (join_elems elem)))"

definition fp_Dir :: "path \<Rightarrow> path" where
  "fp_Dir p = Path (rooted p) (butlast (comps p))"

subsection \<open>The world: files and the trace of operations\<close>

text \<open>
  A path holds a regular file with its bytes, a directory, or nothing. Paths name
  distinct files: there are no symbolic or hard links in the model.
\<close>

datatype fnode = File string | Dir

text \<open>The two lines that \<open>generateTestcase\<close> logs.\<close>

datatype log_line = Generating string | Downloading string string

text \<open>
  Every operation on the outside world is recorded: \<open>HttpGet\<close> is the request of
  \<^verbatim>\<open>httpClient.Get\<close> (the only network access of the program), \<open>BodyClose\<close> the closing
  of the response body, the others are the calls of package \<^verbatim>\<open>os\<close> on a path or on
  the file opened at that path.
\<close>

datatype event =
    Log log_line
  | Stat path
  | ReadDir path
  | Open path
  | MkdirAll path
  | Create path
  | Write path string
  | Sync path
  | Close path
  | HttpGet string
  | BodyClose string

record world =
  fs :: "path \<Rightarrow> fnode option"
  trace :: "event list"

definition start :: "(path \<Rightarrow> fnode option) \<Rightarrow> world" where
  "start F = \<lparr>fs = F, trace = []\<rparr>"

definition emit :: "event \<Rightarrow> world \<Rightarrow> world" where
  "emit e W = W\<lparr>trace := trace W @ [e]\<rparr>"

subsection \<open>The collaborators\<close>

text \<open>\<^verbatim>\<open>os.FileInfo\<close>, as far as the program reads it.\<close>

record fileinfo =
  Name :: string
  IsDir :: bool

text \<open>
  \<^verbatim>\<open>html.Node\<close>: the parsed document and the extracted article are both trees of
  this type.
\<close>

datatype html_node = Text string | Element string "html_node list"

text \<open>\<^verbatim>\<open>readability.Article\<close>, the fields the program reads.\<close>

record article =
  Title :: string
  Byline :: string
  Excerpt :: string
  Language :: string
  SiteName :: string
  Node :: html_node

text \<open>
  The response of a successful \<^verbatim>\<open>Get\<close>: the pieces of the body in the order
  they arrive, and the error that ends the body early, if any (a timeout or a broken
  connection while the body is read). The status code is not read by the program.
\<close>

record response =
  chunks :: "string list"
  body_err :: "err option"

text \<open>
  \<open>os_fault\<close> makes an operation of package \<^verbatim>\<open>os\<close> fail with the given error
  whatever the file tree holds (permissions, a full disk, ...). \<open>FromDocument\<close>
  returns the document as the engine leaves it and the article or the error.
\<close>

record env =
  nurl_ParseRequestURI :: "string \<Rightarrow> err option"
  http_Get :: "string \<Rightarrow> err + response"
  os_fault :: "event \<Rightarrow> err option"
  dir_listing :: "path \<Rightarrow> err + fileinfo list"
  dom_parse_bytes :: "string \<Rightarrow> err + html_node"
  readability_FromDocument :: "html_node \<Rightarrow> string \<Rightarrow> html_node \<times> (err + article)"
  readability_CheckDocument :: "html_node \<Rightarrow> bool"
  html_render_bytes :: "html_node \<Rightarrow> string"
  json_encode_string :: "string \<Rightarrow> string"

subsection \<open>Package \<^verbatim>\<open>os\<close>, \<^verbatim>\<open>net/http\<close> and \<^verbatim>\<open>io\<close>\<close>

text \<open>
  \<^verbatim>\<open>os.Stat\<close> returns the pair \<^verbatim>\<open>(info, err)\<close>: the info is \<^verbatim>\<open>nil\<close> (\<open>None\<close>)
  whenever the error is not. The tree \<open>fs\<close> answers only for a path that is there
  and for one that nothing stands in the way of: every other error of the call (a
  component of the path that is a regular file, a directory that may not be searched, a
  name that is too long) comes from \<open>os_fault\<close>, and for none of them
  \<^verbatim>\<open>os.IsNotExist\<close> holds.
\<close>

definition os_Stat :: "env \<Rightarrow> world \<Rightarrow> path \<Rightarrow> world \<times> fileinfo option \<times> err option" where
  "os_Stat E W p =
     (emit (Stat p) W,
      case os_fault E (Stat p) of
        Some e \<Rightarrow> (None, Some e)
      | None \<Rightarrow>
          (case fs W p of
             None \<Rightarrow> (None, Some NotExist)
           | Some n \<Rightarrow> (Some \<lparr>Name = (if comps p = [] then [] else last (comps p)), IsDir = (n = Dir)\<rparr>, None)))"

definition os_ReadDir :: "env \<Rightarrow> world \<Rightarrow> path \<Rightarrow> world \<times> (err + fileinfo list)" where
  "os_ReadDir E W p = (emit (ReadDir p) W, dir_listing E p)"

definition os_Open :: "env \<Rightarrow> world \<Rightarrow> path \<Rightarrow> world \<times> (err + fnode)" where
  "os_Open E W p =
     (emit (Open p) W,
      case os_fault E (Open p) of
        Some e \<Rightarrow> Inl e
      | None \<Rightarrow> (case fs W p of None \<Rightarrow> Inl NotExist | Some n \<Rightarrow> Inr n))"

definition dir_at :: "(path \<Rightarrow> fnode option) \<Rightarrow> path \<Rightarrow> bool" where
  "dir_at F d \<longleftrightarrow> comps d = [] \<or> F d = Some Dir"

text \<open>
  \<^verbatim>\<open>os.MkdirAll\<close> creates the missing directories from the outermost one and stops
  at a component that is a regular file. The program ignores its error.
\<close>

fun mkdirs :: "(path \<Rightarrow> fnode option) \<Rightarrow> bool \<Rightarrow> string list \<Rightarrow> string list \<Rightarrow> (path \<Rightarrow> fnode option)" where
  "mkdirs F r pre [] = F"
| "mkdirs F r pre (c # cs) =
     (case F (Path r (pre @ [c])) of
        None \<Rightarrow> mkdirs (F(Path r (pre @ [c]) \<mapsto> Dir)) r (pre @ [c]) cs
      | Some Dir \<Rightarrow> mkdirs F r (pre @ [c]) cs
      | Some (File b) \<Rightarrow> F)"

definition os_MkdirAll :: "env \<Rightarrow> world \<Rightarrow> path \<Rightarrow> world" where
  "os_MkdirAll E W p =
     (let W' = emit (MkdirAll p) W in
      case os_fault E (MkdirAll p) of
        Some e \<Rightarrow> W'
      | None \<Rightarrow> W'\<lparr>fs := mkdirs (fs W') (rooted p) [] (comps p)\<rparr>)"

text \<open>\<^verbatim>\<open>os.Create\<close> creates the file or truncates it.\<close>

definition os_Create :: "env \<Rightarrow> world \<Rightarrow> path \<Rightarrow> world \<times> err option" where
  "os_Create E W p =
     (let W' = emit (Create p) W in
      case os_fault E (Create p) of
        Some e \<Rightarrow> (W', Some e)
      | None \<Rightarrow>
          if fs W p = Some Dir then (W', Some (Cause ''is a directory''))
          else if \<not> dir_at (fs W) (fp_Dir p) then (W', Some NotExist)
          else (W'\<lparr>fs := (fs W')(p \<mapsto> File [])\<rparr>, None))"

fun append_bytes :: "string \<Rightarrow> fnode \<Rightarrow> fnode" where
  "append_bytes b (File c) = File (c @ b)"
| "append_bytes b Dir = Dir"

text \<open>A write on the file created at \<open>p\<close>: the bytes go to its end.\<close>

definition os_Write :: "env \<Rightarrow> world \<Rightarrow> path \<Rightarrow> string \<Rightarrow> world \<times> err option" where
  "os_Write E W p b =
     (let W' = emit (Write p b) W in
      case os_fault E (Write p b) of
        Some e \<Rightarrow> (W', Some e)
      | None \<Rightarrow> (W'\<lparr>fs := (fs W')(p := map_option (append_bytes b) (fs W' p))\<rparr>, None))"

definition os_Sync :: "env \<Rightarrow> world \<Rightarrow> path \<Rightarrow> world \<times> err option" where
  "os_Sync E W p = (emit (Sync p) W, os_fault E (Sync p))"

definition os_Close :: "world \<Rightarrow> path \<Rightarrow> world" where
  "os_Close W p = emit (Close p) W"

definition httpClient_Get :: "env \<Rightarrow> world \<Rightarrow> string \<Rightarrow> world \<times> (err + response)" where
  "httpClient_Get E W url = (emit (HttpGet url) W, http_Get E url)"

text \<open>
  \<^verbatim>\<open>io.Copy(dst, resp.Body)\<close>: every piece that was read is written before the next
  one is read; a failed write ends the copy, and so does the error of the body.
\<close>

fun copy_chunks :: "env \<Rightarrow> world \<Rightarrow> path \<Rightarrow> string list \<Rightarrow> world \<times> err option" where
  "copy_chunks E W p [] = (W, None)"
| "copy_chunks E W p (c # cs) =
     (case os_Write E W p c of
        (W', Some e) \<Rightarrow> (W', Some e)
      | (W', None) \<Rightarrow> copy_chunks E W' p cs)"

definition io_Copy :: "env \<Rightarrow> world \<Rightarrow> path \<Rightarrow> response \<Rightarrow> world \<times> err option" where
  "io_Copy E W p r =
     (case copy_chunks E W p (chunks r) of
        (W', Some e) \<Rightarrow> (W', Some e)
      | (W', None) \<Rightarrow> (W', body_err r))"

text \<open>\<^verbatim>\<open>dom.Parse\<close> reads the opened file; reading a directory fails.\<close>

definition dom_Parse :: "env \<Rightarrow> fnode \<Rightarrow> err + html_node" where
  "dom_Parse E h = (case h of Dir \<Rightarrow> Inl (Cause ''is a directory'') | File b \<Rightarrow> dom_parse_bytes E b)"

subsection \<open>\<^verbatim>\<open>encoding/json\<close> on the metadata struct\<close>

text \<open>
  A field of the struct: its key, whether its tag says \<^verbatim>\<open>omitempty\<close>, and its value.
  \<^verbatim>\<open>omitempty\<close> leaves out the empty string and \<^verbatim>\<open>false\<close>.
\<close>

datatype jvalue = JString string | JBool bool

fun isEmptyValue :: "jvalue \<Rightarrow> bool" where
  "isEmptyValue (JString s) = (s = [])"
| "isEmptyValue (JBool b) = (\<not> b)"

definition json_members :: "(string \<times> bool \<times> jvalue) list \<Rightarrow> (string \<times> jvalue) list" where
  "json_members flds =
     map (\<lambda>(k, omitempty, v). (k, v))
       (filter (\<lambda>(k, omitempty, v). \<not> (omitempty \<and> isEmptyValue v)) flds)"

fun json_value :: "env \<Rightarrow> jvalue \<Rightarrow> string" where
  "json_value E (JString s) = json_encode_string E s"
| "json_value E (JBool b) = (if b then ''true'' else ''false'')"

definition json_member_line :: "env \<Rightarrow> string \<Rightarrow> string \<Rightarrow> string \<times> jvalue \<Rightarrow> string" where
  "json_member_line E prefix indent m =
     prefix @ indent @ [CHR 0x22] @ fst m @ [CHR 0x22] @ '': '' @ json_value E (snd m)"

fun json_lines :: "string list \<Rightarrow> string" where
  "json_lines [] = []"
| "json_lines [l] = l"
| "json_lines (l # ls) = l @ '','' @ [CHR 0x0A] @ json_lines ls"

definition json_text :: "env \<Rightarrow> (string \<times> bool \<times> jvalue) list \<Rightarrow> string \<Rightarrow> string \<Rightarrow> string" where
  "json_text E flds prefix indent =
     (case json_members flds of
        [] \<Rightarrow> ''{}''
      | ms \<Rightarrow> ''{'' @ [CHR 0x0A] @ json_lines (map (json_member_line E prefix indent) ms)
                @ [CHR 0x0A] @ prefix @ ''}'')"

text \<open>
  \<^verbatim>\<open>json.MarshalIndent\<close> returns an error for a value it cannot encode (a channel, a
  function, a cycle); a struct of strings and a boolean is always encoded.
\<close>

definition json_MarshalIndent :: "env \<Rightarrow> (string \<times> bool \<times> jvalue) list \<Rightarrow> string \<Rightarrow> string \<Rightarrow> err + string" where
  "json_MarshalIndent E flds prefix indent = Inr (json_text E flds prefix indent)"

subsection \<open>The program\<close>

text \<open>
  \<^verbatim>\<open>return !os.IsNotExist(err) && !info.IsDir()\<close>: when the error is not a not-exist
  error the info is read, and it is \<^verbatim>\<open>nil\<close> when \<^verbatim>\<open>Stat\<close> failed: the call panics
  (\<open>None\<close>).
\<close>

definition fileExists :: "env \<Rightarrow> world \<Rightarrow> path \<Rightarrow> world \<times> bool option" where
  "fileExists E W filePath =
     (case os_Stat E W filePath of
        (W', info, err) \<Rightarrow>
          (W', if \<not> os_IsNotExist err
               then (case info of None \<Rightarrow> None | Some i \<Rightarrow> Some (\<not> IsDir i))
               else Some False))"

definition downloadWebPage :: "env \<Rightarrow> world \<Rightarrow> string \<Rightarrow> path \<Rightarrow> world \<times> err option" where
  "downloadWebPage E W srcURL dstPath =
     (case nurl_ParseRequestURI E srcURL of
        Some e \<Rightarrow> (W, Some (Wrap ''failed to parse URL'' e))
      | None \<Rightarrow>
          (case httpClient_Get E W srcURL of
             (W1, Inl e) \<Rightarrow> (W1, Some (Wrap ''failed to fetch URL'' e))
           | (W1, Inr resp) \<Rightarrow>
               (case os_Create E (os_MkdirAll E W1 (fp_Dir dstPath)) dstPath of
                  (W2, Some e) \<Rightarrow>
                    (emit (BodyClose srcURL) W2, Some (Wrap ''failed to save file'' e))
                | (W2, None) \<Rightarrow>
                    (case io_Copy E W2 dstPath resp of
                       (W3, Some e) \<Rightarrow>
                         (emit (BodyClose srcURL) (os_Close W3 dstPath),
                          Some (Wrap ''failed to save file'' e))
                     | (W3, None) \<Rightarrow>
                         (emit (BodyClose srcURL) (os_Close W3 dstPath), None)))))"

text \<open>
  \<^verbatim>\<open>html.Render\<close> writes through a buffer and flushes it before it returns; the
  pieces it hands to the file are held here as one write of the rendered bytes, whose
  error is the error of the call. An error of \<^verbatim>\<open>Render\<close> that is not an error of
  writing is not modelled. There is no \<^verbatim>\<open>Sync\<close> in the function.
\<close>

definition renderNodeToFile :: "env \<Rightarrow> world \<Rightarrow> html_node \<Rightarrow> path \<Rightarrow> world \<times> err option" where
  "renderNodeToFile E W element filename =
     (case os_Create E W filename of
        (W1, Some e) \<Rightarrow> (W1, Some (Wrap ''failed to create html file'' e))
      | (W1, None) \<Rightarrow>
          (case os_Write E W1 filename (html_render_bytes E element) of
             (W2, r) \<Rightarrow> (os_Close W2 filename, r)))"

text \<open>The struct literal of \<open>renderMetadataToFile\<close>, field by field with its tag.\<close>

definition metadata :: "env \<Rightarrow> html_node \<Rightarrow> article \<Rightarrow> (string \<times> bool \<times> jvalue) list" where
  "metadata E original a =
     [(''title'', True, JString (Title a)),
      (''byline'', True, JString (Byline a)),
      (''excerpt'', True, JString (Excerpt a)),
      (''language'', True, JString (Language a)),
      (''siteName'', True, JString (SiteName a)),
      (''readerable'', False, JBool (readability_CheckDocument E original))]"

definition renderMetadataToFile :: "env \<Rightarrow> world \<Rightarrow> html_node \<Rightarrow> article \<Rightarrow> path \<Rightarrow> world \<times> err option" where
  "renderMetadataToFile E W original a filename =
     (case os_Create E W filename of
        (W1, Some e) \<Rightarrow> (W1, Some (Wrap ''failed to create metadata file'' e))
      | (W1, None) \<Rightarrow>
          (case json_MarshalIndent E (metadata E original a) [] ''    '' of
             Inl e \<Rightarrow> (os_Close W1 filename, Some (Wrap ''failed to marshal json'' e))
           | Inr bt \<Rightarrow>
               (case os_Write E W1 filename bt of
                  (W2, Some e) \<Rightarrow>
                    (os_Close W2 filename, Some (Wrap ''failed to write metadata file'' e))
                | (W2, None) \<Rightarrow>
                    (case os_Sync E W2 filename of
                       (W3, r) \<Rightarrow> (os_Close W3 filename, r)))))"

text \<open>What \<open>generateTestcase\<close> returns: \<^verbatim>\<open>nil\<close>, an error, or it panics.\<close>

datatype ret = Nil | Error err | Panic

definition generateTestcase :: "env \<Rightarrow> world \<Rightarrow> string \<Rightarrow> string \<Rightarrow> world \<times> ret" where
  "generateTestcase E W testName sourceURL =
     (let W0 = emit (Log (Generating testName)) W;
          testDir = fp_Join [''test-pages'', testName];
          sourcePath = fp_Join_dir testDir [''source.html'']
      in
      case fileExists E W0 sourcePath of
        (W1, None) \<Rightarrow> (W1, Panic)
      | (W1, Some found) \<Rightarrow>
          (case (if \<not> found \<or> sourceURL \<noteq> []
                 then downloadWebPage E (emit (Log (Downloading testName sourceURL)) W1)
                        sourceURL sourcePath
                 else (W1, None)) of
             (W2, Some e) \<Rightarrow> (W2, Error (Wrap ''failed to download source'' e))
           | (W2, None) \<Rightarrow>
               (case os_Open E W2 sourcePath of
                  (W3, Inl e) \<Rightarrow> (W3, Error (Wrap ''failed to open source'' e))
                | (W3, Inr srcFile) \<Rightarrow>
                    (case dom_Parse E srcFile of
                       Inl e \<Rightarrow> (os_Close W3 sourcePath, Error (Wrap ''failed to decode source'' e))
                     | Inr doc \<Rightarrow>
                         (case readability_FromDocument E doc ''http://fakehost/test/page.html'' of
                            (doc', Inl e) \<Rightarrow>
                              (os_Close W3 sourcePath, Error (Wrap ''failed to parse source'' e))
                          | (doc', Inr a) \<Rightarrow>
                              (case renderNodeToFile E W3 (Node a)
                                      (fp_Join_dir testDir [''expected.html'']) of
                                 (W4, Some e) \<Rightarrow>
                                   (os_Close W4 sourcePath, Error (Wrap ''failed to render result'' e))
                               | (W4, None) \<Rightarrow>
                                   (case renderMetadataToFile E W4 doc' a
                                           (fp_Join_dir testDir [''expected-metadata.json'']) of
                                      (W5, Some e) \<Rightarrow>
                                        (os_Close W5 sourcePath,
                                         Error (Wrap ''failed to render metadata'' e))
                                    | (W5, None) \<Rightarrow> (os_Close W5 sourcePath, Nil))))))))"

text \<open>
  How the process ends: \<open>main\<close> returns, \<^verbatim>\<open>log.Fatal\<close> ends it with a message, or it
  panics. The messages, in the order of the source: need at least one argument; allowed
  max two arguments; test name must be defined; URL ... is not valid: ...; failed to
  read test dir: ...; failed to generate test for ...: ....
\<close>

datatype fatal =
    NeedArgument
  | MaxTwoArguments
  | NameUndefined
  | URLNotValid string err
  | ReadDirFailed err
  | GenerateFailed string err

datatype outcome = Returned | Fatal fatal | Panicked

text \<open>The \<^verbatim>\<open>switch len(os.Args)\<close>; \<^verbatim>\<open>os.Args[0]\<close> is the program's name.\<close>

fun arguments :: "string list \<Rightarrow> fatal + string \<times> string" where
  "arguments [a0, a1] = Inr (a1, [])"
| "arguments [a0, a1, a2] = Inr (a1, a2)"
| "arguments [] = Inl NeedArgument"
| "arguments args = Inl MaxTwoArguments"

text \<open>The loop over the entries of \<^verbatim>\<open>test-pages\<close>.\<close>

fun main_loop :: "env \<Rightarrow> world \<Rightarrow> fileinfo list \<Rightarrow> world \<times> outcome" where
  "main_loop E W [] = (W, Returned)"
| "main_loop E W (item # dirItems) =
     (if \<not> IsDir item then main_loop E W dirItems
      else
        (case fileExists E W (fp_Join [''test-pages'', Name item, ''source.html'']) of
           (W1, None) \<Rightarrow> (W1, Panicked)
         | (W1, Some False) \<Rightarrow> main_loop E W1 dirItems
         | (W1, Some True) \<Rightarrow>
             (case generateTestcase E W1 (Name item) [] of
                (W2, Error e) \<Rightarrow> (W2, Fatal (GenerateFailed (Name item) e))
              | (W2, Panic) \<Rightarrow> (W2, Panicked)
              | (W2, Nil) \<Rightarrow> main_loop E W2 dirItems)))"

definition main :: "env \<Rightarrow> world \<Rightarrow> string list \<Rightarrow> world \<times> outcome" where
  "main E W args =
     (case arguments args of
        Inl f \<Rightarrow> (W, Fatal f)
      | Inr (testName, sourceURL) \<Rightarrow>
          if testName = [] then (W, Fatal NameUndefined)
          else
            (case (if sourceURL \<noteq> [] then nurl_ParseRequestURI E sourceURL else None) of
               Some e \<Rightarrow> (W, Fatal (URLNotValid sourceURL e))
             | None \<Rightarrow>
                 if testName = ''all'' then
                   (case os_ReadDir E W (fp_Join [''test-pages'']) of
                      (W1, Inl e) \<Rightarrow> (W1, Fatal (ReadDirFailed e))
                    | (W1, Inr dirItems) \<Rightarrow> main_loop E W1 dirItems)
                 else
                   (case generateTestcase E W testName sourceURL of
                      (W1, Error e) \<Rightarrow> (W1, Fatal (GenerateFailed testName e))
                    | (W1, Panic) \<Rightarrow> (W1, Panicked)
                    | (W1, Nil) \<Rightarrow> (W1, Returned))))"

subsection \<open>Reading the trace and the file tree\<close>

text \<open>
  The addresses requested over the network, the cases whose generation was started, and
  the downloads that were started, each in the order of the trace.
\<close>

fun requests :: "event list \<Rightarrow> string list" where
  "requests [] = []"
| "requests (HttpGet u # evs) = u # requests evs"
| "requests (ev # evs) = requests evs"

fun generated :: "event list \<Rightarrow> string list" where
  "generated [] = []"
| "generated (Log (Generating n) # evs) = n # generated evs"
| "generated (ev # evs) = generated evs"

fun downloading :: "event list \<Rightarrow> (string \<times> string) list" where
  "downloading [] = []"
| "downloading (Log (Downloading n u) # evs) = (n, u) # downloading evs"
| "downloading (ev # evs) = downloading evs"

text \<open>The three files of a case.\<close>

definition source_path :: "string \<Rightarrow> path" where
  "source_path testName = fp_Join_dir (fp_Join [''test-pages'', testName]) [''source.html'']"

definition html_path :: "string \<Rightarrow> path" where
  "html_path testName = fp_Join_dir (fp_Join [''test-pages'', testName]) [''expected.html'']"

definition metadata_path :: "string \<Rightarrow> path" where
  "metadata_path testName =
     fp_Join_dir (fp_Join [''test-pages'', testName]) [''expected-metadata.json'']"

text \<open>
  The bytes of \<^verbatim>\<open>expected.html\<close> and of \<^verbatim>\<open>expected-metadata.json\<close> that a
  generation writes for a source with the bytes \<open>b\<close>, when the parser and the engine
  accept it.
\<close>

definition expected_output :: "env \<Rightarrow> string \<Rightarrow> (string \<times> string) option" where
  "expected_output E b =
     (case dom_parse_bytes E b of
        Inl e \<Rightarrow> None
      | Inr doc \<Rightarrow>
          (case readability_FromDocument E doc ''http://fakehost/test/page.html'' of
             (doc', Inl e) \<Rightarrow> None
           | (doc', Inr a) \<Rightarrow>
               Some (html_render_bytes E (Node a),
                     json_text E (metadata E doc' a) [] ''    '')))"

text \<open>
  The entries that the loop of \<open>main\<close> hands to \<open>generateTestcase\<close>, read on the file
  tree \<open>F\<close> the run starts with.
\<close>

definition qualifies :: "env \<Rightarrow> (path \<Rightarrow> fnode option) \<Rightarrow> fileinfo \<Rightarrow> bool" where
  "qualifies E F item \<longleftrightarrow>
     IsDir item \<and>
     snd (fileExists E (start F) (fp_Join [''test-pages'', Name item, ''source.html''])) = Some True"

text \<open>
  The case \<open>n\<close> has been regenerated: in the world \<open>W\<close> its two output files hold what
  a generation writes for the source that \<open>F\<close> holds for it.
\<close>

definition regenerated :: "env \<Rightarrow> (path \<Rightarrow> fnode option) \<Rightarrow> world \<Rightarrow> string \<Rightarrow> bool" where
  "regenerated E F W n \<longleftrightarrow>
     (case F (source_path n) of
        Some (File b) \<Rightarrow>
          (case expected_output E b of
             Some (h, m) \<Rightarrow>
               fs W (html_path n) = Some (File h) \<and> fs W (metadata_path n) = Some (File m)
           | None \<Rightarrow> False)
      | Some Dir \<Rightarrow> False
      | None \<Rightarrow> False)"

text \<open>
  A name as \<^verbatim>\<open>ReadDir\<close> returns it: one component of a path, neither \<^verbatim>\<open>.\<close> nor
  \<^verbatim>\<open>..\<close>.
\<close>

definition base_name :: "string \<Rightarrow> bool" where
  "base_name n \<longleftrightarrow> n \<noteq> [] \<and> n \<noteq> ''.'' \<and> n \<noteq> ''..'' \<and> CHR ''/'' \<notin> set n"

text \<open>
  Modelled from the spec: \<^verbatim>\<open>readability.FromDocument\<close>, the extraction engine (package
  \<^verbatim>\<open>readability\<close> of this repository; its code is not among the sources). Section
  4.2: "extraction is treated as deterministic and side-effect-free". The engine leaves
  the document it is given as it was.
\<close>

definition side_effect_free :: "env \<Rightarrow> bool" where
  "side_effect_free E \<longleftrightarrow> (\<forall>doc u. fst (readability_FromDocument E doc u) = doc)"

subsection \<open>A sample environment\<close>

text \<open>
  The scenario of the specification: \<^verbatim>\<open>test-pages/sample/\<close> holds only
  \<^verbatim>\<open>source.html\<close>. The root also holds a directory without a source and a plain
  file. The sample validator works in the manner of \<^verbatim>\<open>url.ParseRequestURI\<close>, which
  reads its argument "only as an absolute URI or an absolute path": it accepts a string
  with a colon or a leading slash and rejects the others. The sample client answers an
  \<^verbatim>\<open>http\<close> address with a page in two pieces and refuses any other address.
\<close>

definition sample_source :: string where
  "sample_source = ''<article><p>Hello world</p></article>''"

definition sample_doc :: html_node where
  "sample_doc = Element ''article'' [Element ''p'' [Text ''Hello world'']]"

definition sample_article :: article where
  "sample_article =
     \<lparr>Title = ''Hello'', Byline = [], Excerpt = ''Hello world'', Language = [], SiteName = [],
      Node = Element ''div'' [Element ''p'' [Text ''Hello world'']]\<rparr>"

definition sample_listing :: "fileinfo list" where
  "sample_listing =
     [\<lparr>Name = ''README.md'', IsDir = False\<rparr>,
      \<lparr>Name = ''empty'', IsDir = True\<rparr>,
      \<lparr>Name = ''sample'', IsDir = True\<rparr>]"

definition sample_env :: env where
  "sample_env =
     \<lparr>nurl_ParseRequestURI =
        (\<lambda>s. if s = [] then Some (Cause ''empty url'')
             else if hd s = CHR ''/'' \<or> CHR '':'' \<in> set s then None
             else Some (Cause ''invalid URI for request'')),
      http_Get =
        (\<lambda>u. if take 7 u = ''http://''
             then Inr \<lparr>chunks = [''<article><p>Hello'', '' world</p></article>''], body_err = None\<rparr>
             else Inl (Cause ''unsupported protocol scheme'')),
      os_fault = (\<lambda>ev. None),
      dir_listing = (\<lambda>p. Inr sample_listing),
      dom_parse_bytes = (\<lambda>b. Inr sample_doc),
      readability_FromDocument = (\<lambda>d u. (d, Inr sample_article)),
      readability_CheckDocument = (\<lambda>d. True),
      html_render_bytes = (\<lambda>n. ''<div><p>Hello world</p></div>''),
      json_encode_string = (\<lambda>s. [CHR 0x22] @ s @ [CHR 0x22])\<rparr>"

definition sample_fs :: "path \<Rightarrow> fnode option" where
  "sample_fs =
     (\<lambda>p. None)
       (Path False [''test-pages''] \<mapsto> Dir,
        Path False [''test-pages'', ''README.md''] \<mapsto> File ''fixtures'',
        Path False [''test-pages'', ''empty''] \<mapsto> Dir,
        Path False [''test-pages'', ''sample''] \<mapsto> Dir,
        Path False [''test-pages'', ''sample'', ''source.html''] \<mapsto> File sample_source)"

definition sample_source_path :: path where
  "sample_source_path = Path False [''test-pages'', ''sample'', ''source.html'']"

text \<open>The same environment when the directory of the case cannot be searched.\<close>

definition locked_env :: env where
  "locked_env =
     sample_env\<lparr>os_fault :=
       (\<lambda>ev. if ev = Stat sample_source_path then Some (Cause ''permission denied'') else None)\<rparr>"

text \<open>The same environment when the connection breaks after the first piece of the body.\<close>

definition broken_env :: env where
  "broken_env =
     sample_env\<lparr>http_Get :=
       (\<lambda>u. Inr \<lparr>chunks = [''<article><p>Hello''], body_err = Some (Cause ''unexpected EOF'')\<rparr>)\<rparr>"

text \<open>The same environment when the directory \<^verbatim>\<open>empty\<close> cannot be searched.\<close>

definition unreadable_env :: env where
  "unreadable_env =
     sample_env\<lparr>os_fault :=
       (\<lambda>ev. if ev = Stat (Path False [''test-pages'', ''empty'', ''source.html''])
             then Some (Cause ''permission denied'') else None)\<rparr>"

text \<open>
  A root with three cases that have a source. The source of \<^verbatim>\<open>stale\<close> is an empty
  file, and the engine of this environment finds no article in the empty document.
\<close>

definition batch_listing :: "fileinfo list" where
  "batch_listing =
     [\<lparr>Name = ''README.md'', IsDir = False\<rparr>,
      \<lparr>Name = ''empty'', IsDir = True\<rparr>,
      \<lparr>Name = ''sample'', IsDir = True\<rparr>,
      \<lparr>Name = ''stale'', IsDir = True\<rparr>,
      \<lparr>Name = ''zebra'', IsDir = True\<rparr>]"

definition batch_fs :: "path \<Rightarrow> fnode option" where
  "batch_fs =
     sample_fs
       (Path False [''test-pages'', ''stale''] \<mapsto> Dir,
        Path False [''test-pages'', ''stale'', ''source.html''] \<mapsto> File [],
        Path False [''test-pages'', ''zebra''] \<mapsto> Dir,
        Path False [''test-pages'', ''zebra'', ''source.html''] \<mapsto> File sample_source)"

definition batch_env :: env where
  "batch_env =
     sample_env
       \<lparr>dir_listing := (\<lambda>p. Inr batch_listing),
        dom_parse_bytes := (\<lambda>b. if b = [] then Inr (Element ''html'' []) else Inr sample_doc),
        readability_FromDocument :=
          (\<lambda>d u. if d = Element ''html'' [] then (d, Inl (Cause ''no content''))
                 else (d, Inr sample_article))\<rparr>"

text \<open>The sample tree with one more case, in a directory named \<^verbatim>\<open>all\<close>.\<close>

definition all_fs :: "path \<Rightarrow> fnode option" where
  "all_fs =
     sample_fs
       (Path False [''test-pages'', ''all''] \<mapsto> Dir,
        Path False [''test-pages'', ''all'', ''source.html''] \<mapsto> File sample_source)"

section \<open>Properties\<close>

lemmas sample_defs =
  sample_env_def sample_fs_def sample_source_def sample_doc_def sample_article_def
  sample_listing_def sample_source_path_def locked_env_def broken_env_def
  unreadable_env_def batch_listing_def batch_fs_def batch_env_def all_fs_def

lemmas run_defs =
  main_def os_ReadDir_def generateTestcase_def downloadWebPage_def renderNodeToFile_def
  renderMetadataToFile_def fileExists_def os_Stat_def os_IsNotExist_def os_Open_def
  os_MkdirAll_def os_Create_def os_Write_def os_Sync_def os_Close_def httpClient_Get_def
  io_Copy_def dom_Parse_def json_MarshalIndent_def dir_at_def fp_Dir_def fp_Join_def fp_Join_dir_def join_elems_def
  emit_def start_def Let_def

lemma not_Dir_iff: "(n \<noteq> Dir) = (\<exists>b. n = File b)"
  by (cases n) auto

subsection \<open>Paths\<close>

lemma split_sep_base: "CHR ''/'' \<notin> set n \<Longrightarrow> split_sep n = [n]"
  by (induction n) auto

lemma join_dir_source [simp]:
  "fp_Join_dir d [''source.html''] = Path (rooted d) (comps d @ [''source.html''])"
  "fp_Join_dir d [''expected.html''] = Path (rooted d) (comps d @ [''expected.html''])"
  "fp_Join_dir d [''expected-metadata.json''] = Path (rooted d) (comps d @ [''expected-metadata.json''])"
  by (simp_all add: fp_Join_dir_def join_elems_def)

lemma join_elems_append: "join_elems (xs @ ys) = join_elems xs @ join_elems ys"
  by (simp add: join_elems_def)

lemma join_three:
  "fp_Join [''test-pages'', n, ''source.html''] = source_path n"
  by (simp add: source_path_def fp_Join_def fp_Join_dir_def join_elems_def Let_def del: clean_elem.simps)

lemma join_base:
  "base_name n \<Longrightarrow> fp_Join [''test-pages'', n] = Path False [''test-pages'', n]"
  by (simp add: fp_Join_def join_elems_def base_name_def split_sep_base)

lemma rooted_join [simp]: "rooted (fp_Join [''test-pages'', n]) = False"
  by (simp add: fp_Join_def)

lemma case_paths:
  "source_path n = Path False (comps (fp_Join [''test-pages'', n]) @ [''source.html''])"
  "html_path n = Path False (comps (fp_Join [''test-pages'', n]) @ [''expected.html''])"
  "metadata_path n = Path False (comps (fp_Join [''test-pages'', n]) @ [''expected-metadata.json''])"
  by (simp_all add: source_path_def html_path_def metadata_path_def)

lemma case_paths_distinct [simp]:
  "source_path n \<noteq> html_path m" "source_path n \<noteq> metadata_path m"
  "html_path n \<noteq> source_path m" "metadata_path n \<noteq> source_path m"
  "html_path n \<noteq> metadata_path m" "metadata_path n \<noteq> html_path m"
  by (simp_all add: case_paths)

lemma case_paths_base:
  "base_name n \<Longrightarrow> html_path n = Path False [''test-pages'', n, ''expected.html'']"
  "base_name n \<Longrightarrow> metadata_path n = Path False [''test-pages'', n, ''expected-metadata.json'']"
  "base_name n \<Longrightarrow> source_path n = Path False [''test-pages'', n, ''source.html'']"
  by (simp_all add: case_paths join_base)

lemma sample_paths [simp]:
  "source_path ''sample'' = sample_source_path"
  "html_path ''sample'' = Path False [''test-pages'', ''sample'', ''expected.html'']"
  "metadata_path ''sample'' = Path False [''test-pages'', ''sample'', ''expected-metadata.json'']"
  by (simp_all add: case_paths_base base_name_def sample_source_path_def)




subsection \<open>Reading a trace in pieces\<close>

lemma requests_append [simp]: "requests (xs @ ys) = requests xs @ requests ys"
  by (induction xs rule: requests.induct) auto

lemma generated_append [simp]: "generated (xs @ ys) = generated xs @ generated ys"
  by (induction xs rule: generated.induct) auto

lemma downloading_append [simp]: "downloading (xs @ ys) = downloading xs @ downloading ys"
  by (induction xs rule: downloading.induct) auto

subsection \<open>What each function does to the world\<close>

lemma fileExists_fst [simp]: "fst (fileExists E W p) = emit (Stat p) W"
  by (simp add: fileExists_def os_Stat_def split: prod.splits)

lemma fileExists_snd:
  "snd (fileExists E W p) =
     (case os_fault E (Stat p) of
        Some e \<Rightarrow> if e = NotExist then Some False else None
      | None \<Rightarrow> Some (\<exists>b. fs W p = Some (File b)))"
  by (cases "fs W p"; cases "os_fault E (Stat p)")
     (auto simp: fileExists_def os_Stat_def os_IsNotExist_def not_Dir_iff)

lemma fileExists_emit [simp]: "snd (fileExists E (emit ev W) p) = snd (fileExists E W p)"
  by (simp add: fileExists_snd emit_def split: option.splits)

lemma fileExists_eq: "fileExists E W p = (emit (Stat p) W, snd (fileExists E W p))"
  by (metis fileExists_fst prod.collapse)

lemma renderNodeToFile_effect:
  assumes "renderNodeToFile E W n f = (W', r)"
  shows "requests (trace W') = requests (trace W) \<and> generated (trace W') = generated (trace W)
    \<and> downloading (trace W') = downloading (trace W)
    \<and> (\<forall>p. p \<noteq> f \<longrightarrow> fs W' p = fs W p)
    \<and> (r = None \<longrightarrow> fs W' f = Some (File (html_render_bytes E n)))"
  using assms
  by (auto simp: renderNodeToFile_def os_Create_def os_Write_def os_Close_def emit_def Let_def
      split: option.splits if_splits prod.splits)

lemma renderMetadataToFile_effect:
  assumes "renderMetadataToFile E W d a f = (W', r)"
  shows "requests (trace W') = requests (trace W) \<and> generated (trace W') = generated (trace W)
    \<and> downloading (trace W') = downloading (trace W)
    \<and> (\<forall>p. p \<noteq> f \<longrightarrow> fs W' p = fs W p)
    \<and> (r = None \<longrightarrow> fs W' f = Some (File (json_text E (metadata E d a) [] ''    '')))"
  using assms
  by (auto simp: renderMetadataToFile_def json_MarshalIndent_def os_Create_def os_Write_def os_Sync_def
        os_Close_def emit_def Let_def
      split: option.splits if_splits prod.splits)

lemma os_Open_effect:
  assumes "os_Open E W p = (W', r)"
  shows "W' = emit (Open p) W \<and> (\<forall>h. r = Inr h \<longrightarrow> fs W p = Some h)"
  using assms by (auto simp: os_Open_def split: option.splits)

lemma emit_simps [simp]:
  "fs (emit ev W) = fs W" "trace (emit ev W) = trace W @ [ev]"
  by (simp_all add: emit_def)

lemma os_Close_simps [simp]:
  "fs (os_Close W p) = fs W" "trace (os_Close W p) = trace W @ [Close p]"
  by (simp_all add: os_Close_def)

lemma generateTestcase_reuse:
  assumes found: "snd (fileExists E W (source_path n)) = Some True"
    and run: "generateTestcase E W n [] = (W', r)"
  shows "requests (trace W') = requests (trace W) \<and> downloading (trace W') = downloading (trace W)
    \<and> generated (trace W') = generated (trace W) @ [n]
    \<and> (\<forall>p. p \<noteq> html_path n \<and> p \<noteq> metadata_path n \<longrightarrow> fs W' p = fs W p)
    \<and> r \<noteq> Panic
    \<and> (r = Nil \<longrightarrow> regenerated E (fs W) W' n)"
  using run found
  unfolding generateTestcase_def Let_def source_path_def[symmetric] html_path_def[symmetric]
    metadata_path_def[symmetric]
  apply (subst (asm) fileExists_eq)
  apply (simp split: prod.splits sum.splits option.splits)
  apply (auto dest!: renderNodeToFile_effect renderMetadataToFile_effect os_Open_effect
      simp: expected_output_def regenerated_def dom_Parse_def split: fnode.splits)
  done

lemma downloadWebPage_trace:
  assumes "downloadWebPage E W u dst = (W', r)"
  shows "generated (trace W') = generated (trace W) \<and> downloading (trace W') = downloading (trace W)
    \<and> requests (trace W') = requests (trace W) @ (if nurl_ParseRequestURI E u = None then [u] else [])"
proof -
  have cc: "\<And>W W' r cs. copy_chunks E W dst cs = (W', r) \<Longrightarrow>
     generated (trace W') = generated (trace W) \<and> downloading (trace W') = downloading (trace W)
     \<and> requests (trace W') = requests (trace W)"
  proof -
    fix W W' r cs
    show "copy_chunks E W dst cs = (W', r) \<Longrightarrow>
     generated (trace W') = generated (trace W) \<and> downloading (trace W') = downloading (trace W)
     \<and> requests (trace W') = requests (trace W)"
      by (induction cs arbitrary: W)
         (auto simp: os_Write_def Let_def split: option.splits prod.splits)
  qed
  show ?thesis
    using assms
    by (auto simp: downloadWebPage_def httpClient_Get_def os_Create_def os_MkdirAll_def io_Copy_def Let_def
        split: option.splits sum.splits prod.splits if_splits dest!: cc)
qed

lemma generateTestcase_success:
  assumes "generateTestcase E W testName sourceURL = (W', Nil)"
  shows "\<exists>b doc doc' a.
      fs W' (source_path testName) = Some (File b)
    \<and> dom_parse_bytes E b = Inr doc
    \<and> readability_FromDocument E doc ''http://fakehost/test/page.html'' = (doc', Inr a)
    \<and> fs W' (html_path testName) = Some (File (html_render_bytes E (Node a)))
    \<and> fs W' (metadata_path testName) = Some (File (json_text E (metadata E doc' a) [] ''    ''))"
proof -
  let ?sp = "source_path testName"
  let ?W0 = "emit (Log (Generating testName)) W"
  obtain ans where fe: "fileExists E ?W0 ?sp = (emit (Stat ?sp) ?W0, ans)"
    using fileExists_eq by blast
  obtain W2 d where dl:
    "(if \<not> the ans \<or> sourceURL \<noteq> []
      then downloadWebPage E (emit (Log (Downloading testName sourceURL)) (emit (Stat ?sp) ?W0)) sourceURL ?sp
      else (emit (Stat ?sp) ?W0, None)) = (W2, d)"
    by (metis surj_pair)
  from assms fe dl show ?thesis
    unfolding generateTestcase_def Let_def source_path_def[symmetric] html_path_def[symmetric]
      metadata_path_def[symmetric]
    by (auto simp: dom_Parse_def split: prod.splits sum.splits option.splits fnode.splits
        dest!: renderNodeToFile_effect renderMetadataToFile_effect os_Open_effect)
qed

lemma metadata_members:
  "json_members (metadata E d a) =
     (if Title a = [] then [] else [(''title'', JString (Title a))]) @
     (if Byline a = [] then [] else [(''byline'', JString (Byline a))]) @
     (if Excerpt a = [] then [] else [(''excerpt'', JString (Excerpt a))]) @
     (if Language a = [] then [] else [(''language'', JString (Language a))]) @
     (if SiteName a = [] then [] else [(''siteName'', JString (SiteName a))]) @
     [(''readerable'', JBool (readability_CheckDocument E d))]"
  by (simp add: json_members_def metadata_def)

lemma metadata_readerable:
  "map_of (json_members (metadata E d a)) ''readerable'' = Some (JBool (readability_CheckDocument E d))"
  unfolding metadata_members by simp

subsection \<open>The existence check\<close>

text \<open>
  C9. \<open>fileExists\<close> returns a boolean only when \<^verbatim>\<open>os.Stat\<close> succeeds or fails with a
  not-exist error. It panics exactly when \<^verbatim>\<open>Stat\<close> fails with another error: the
  info returned with an error is \<^verbatim>\<open>nil\<close>, and the function reads it. When \<^verbatim>\<open>Stat\<close>
  succeeds the answer says whether the path holds a regular file, and on a not-exist
  error it is false.
\<close>

theorem fileExists_panics_iff:
  "(snd (fileExists E W p) = None \<longleftrightarrow>
      (\<exists>e. snd (snd (os_Stat E W p)) = Some e \<and> \<not> os_IsNotExist (Some e)))
   \<and> (snd (snd (os_Stat E W p)) = None \<longrightarrow>
      fst (snd (os_Stat E W p)) \<noteq> None \<and>
      snd (fileExists E W p) = Some (\<exists>b. fs W p = Some (File b)))
   \<and> (os_IsNotExist (snd (snd (os_Stat E W p))) \<longrightarrow> snd (fileExists E W p) = Some False)
   \<and> (\<forall>e. snd (snd (os_Stat E W p)) = Some e \<longrightarrow> fst (snd (os_Stat E W p)) = None)"
  by (cases "fs W p"; cases "os_fault E (Stat p)")
     (auto simp: fileExists_def os_Stat_def os_IsNotExist_def not_Dir_iff)

theorem fileExists_panics_witness:
  "snd (snd (os_Stat locked_env (start sample_fs) sample_source_path))
     = Some (Cause ''permission denied'')
   \<and> snd (fileExists locked_env (start sample_fs) sample_source_path) = None
   \<and> snd (fileExists sample_env (start sample_fs) sample_source_path) = Some True"
proof -
  have a: "snd (snd (os_Stat locked_env (start sample_fs) sample_source_path))
             = Some (Cause ''permission denied'')"
    by (simp add: os_Stat_def locked_env_def)
  have b: "snd (snd (os_Stat sample_env (start sample_fs) sample_source_path)) = None"
    by (simp add: os_Stat_def sample_defs start_def)
  have c: "\<exists>b. fs (start sample_fs) sample_source_path = Some (File b)"
    by (simp add: sample_defs start_def)
  have "\<not> os_IsNotExist (Some (Cause ''permission denied''))"
    by (simp add: os_IsNotExist_def)
  with a have "snd (fileExists locked_env (start sample_fs) sample_source_path) = None"
    using fileExists_panics_iff [of locked_env "start sample_fs" sample_source_path] by blast
  moreover have "snd (fileExists sample_env (start sample_fs) sample_source_path) = Some True"
    using fileExists_panics_iff [of sample_env "start sample_fs" sample_source_path] b c by simp
  ultimately show ?thesis using a by simp
qed

subsection \<open>The decision to download\<close>

text \<open>
  When the existence check returns, the download is started exactly when the check found
  no regular file or a source URL was given, and the request goes out exactly when,
  moreover, the validator accepts the URL (with no file and no URL the download fails on
  the empty URL before any request). When the file is there and no URL was given, nothing
  is requested and the source file is left as it was.
\<close>

theorem generateTestcase_download_decision:
  assumes "snd (fileExists E W (source_path testName)) = Some found"
    and "generateTestcase E W testName sourceURL = (W', r)"
  shows "downloading (trace W') = downloading (trace W) @
           (if \<not> found \<or> sourceURL \<noteq> [] then [(testName, sourceURL)] else [])
    \<and> requests (trace W') = requests (trace W) @
           (if (\<not> found \<or> sourceURL \<noteq> []) \<and> nurl_ParseRequestURI E sourceURL = None
            then [sourceURL] else [])
    \<and> (found \<and> sourceURL = [] \<longrightarrow> fs W' (source_path testName) = fs W (source_path testName))"
proof -
  let ?sp = "source_path testName"
  let ?W1 = "emit (Stat ?sp) (emit (Log (Generating testName)) W)"
  have fe: "fileExists E (emit (Log (Generating testName)) W) ?sp = (?W1, Some found)"
    using assms(1) by (metis fileExists_emit fileExists_fst prod.collapse)
  show ?thesis
  proof (cases "\<not> found \<or> sourceURL \<noteq> []")
    case False
    then have "found" "sourceURL = []" by auto
    with assms generateTestcase_reuse[of E W testName W' r] show ?thesis by simp
  next
    case True
    obtain W2 d where dl: "downloadWebPage E (emit (Log (Downloading testName sourceURL)) ?W1) sourceURL ?sp = (W2, d)"
      by (cases "downloadWebPage E (emit (Log (Downloading testName sourceURL)) ?W1) sourceURL ?sp")
    note t = downloadWebPage_trace[OF dl]
    from assms(2) True fe dl t show ?thesis
      unfolding generateTestcase_def Let_def source_path_def[symmetric] html_path_def[symmetric]
        metadata_path_def[symmetric]
      by (auto split: prod.splits sum.splits option.splits
          dest!: renderNodeToFile_effect renderMetadataToFile_effect os_Open_effect)
  qed
qed

text \<open>
  C1. The decision is not reached in every run. \<open>generateTestcase\<close> evaluates
  \<^verbatim>\<open>!fileExists(sourcePath) || sourceURL != ""\<close> from the left: when \<^verbatim>\<open>Stat\<close> fails on
  the source path with an error other than not-exist, the run panics inside
  \<open>fileExists\<close>, and no download is started and nothing is requested, also when a
  source URL was supplied.
\<close>

theorem generateTestcase_panics_on_stat_failure:
  assumes "os_fault E (Stat (source_path testName)) = Some e" and "e \<noteq> NotExist"
  shows "generateTestcase E W testName sourceURL =
           (emit (Stat (source_path testName)) (emit (Log (Generating testName)) W), Panic)
    \<and> downloading (trace (fst (generateTestcase E W testName sourceURL))) = downloading (trace W)
    \<and> requests (trace (fst (generateTestcase E W testName sourceURL))) = requests (trace W)"
proof -
  have "snd (fileExists E (emit (Log (Generating testName)) W) (source_path testName)) = None"
    using assms by (simp add: fileExists_snd)
  then have "fileExists E (emit (Log (Generating testName)) W) (source_path testName)
      = (emit (Stat (source_path testName)) (emit (Log (Generating testName)) W), None)"
    by (metis fileExists_fst prod.collapse)
  then have "generateTestcase E W testName sourceURL =
           (emit (Stat (source_path testName)) (emit (Log (Generating testName)) W), Panic)"
    by (simp add: generateTestcase_def source_path_def)
  then show ?thesis by simp
qed

theorem generateTestcase_panics_witness:
  "generateTestcase locked_env (start sample_fs) ''sample'' ''http://example.com/page'' =
     (\<lparr>fs = sample_fs, trace = [Log (Generating ''sample''), Stat sample_source_path]\<rparr>, Panic)
   \<and> downloading (trace (fst (generateTestcase locked_env (start sample_fs) ''sample'' ''http://example.com/page''))) = []"
proof -
  have "os_fault locked_env (Stat (source_path ''sample'')) = Some (Cause ''permission denied'')"
    by (simp add: locked_env_def)
  from generateTestcase_panics_on_stat_failure[OF this, of "start sample_fs" "''http://example.com/page''"]
  show ?thesis by (simp add: start_def emit_def)
qed

subsection \<open>The readerable flag\<close>

text \<open>
  C2. After a successful generation, \<^verbatim>\<open>expected-metadata.json\<close> holds the metadata
  built from the article and from the document that was parsed from the source file, in
  the state the engine left it in: \<open>renderMetadataToFile\<close> is handed the document
  after \<open>FromDocument\<close> has run on it, and its \<open>readerable\<close> member is
  \<open>CheckDocument\<close> of that document. For an engine without side effects this is the
  document as it was parsed, before the engine was called.
\<close>

theorem readerable_of_parsed_document:
  assumes "generateTestcase E W testName sourceURL = (W', Nil)"
  shows "\<exists>b doc doc' a.
      fs W' (source_path testName) = Some (File b)
    \<and> dom_parse_bytes E b = Inr doc
    \<and> readability_FromDocument E doc ''http://fakehost/test/page.html'' = (doc', Inr a)
    \<and> fs W' (metadata_path testName) = Some (File (json_text E (metadata E doc' a) [] ''    ''))
    \<and> map_of (json_members (metadata E doc' a)) ''readerable'' = Some (JBool (readability_CheckDocument E doc'))
    \<and> (side_effect_free E \<longrightarrow> doc' = doc)"
proof -
  from generateTestcase_success[OF assms] obtain b doc doc' a where
    *: "fs W' (source_path testName) = Some (File b)" "dom_parse_bytes E b = Inr doc"
      "readability_FromDocument E doc ''http://fakehost/test/page.html'' = (doc', Inr a)"
      "fs W' (metadata_path testName) = Some (File (json_text E (metadata E doc' a) [] ''    ''))"
    by blast
  have "side_effect_free E \<longrightarrow> doc' = doc"
    using *(3) unfolding side_effect_free_def by (metis fst_conv)
  with * metadata_readerable[of E doc' a] show ?thesis by blast
qed

theorem readerable_of_parsed_document_witness:
  "snd (generateTestcase sample_env (start sample_fs) ''sample'' []) = Nil
   \<and> side_effect_free sample_env
   \<and> fs (fst (generateTestcase sample_env (start sample_fs) ''sample'' [])) (metadata_path ''sample'')
       = Some (File (json_text sample_env (metadata sample_env sample_doc sample_article) [] ''    ''))
   \<and> map_of (json_members (metadata sample_env sample_doc sample_article)) ''readerable''
       = Some (JBool (readability_CheckDocument sample_env sample_doc))"
proof -
  obtain W' where run: "generateTestcase sample_env (start sample_fs) ''sample'' [] = (W', Nil)"
    by (simp add: run_defs sample_defs)
  have pure: "side_effect_free sample_env"
    by (simp add: side_effect_free_def sample_env_def)
  from readerable_of_parsed_document[OF run] obtain b doc doc' a where
    *: "dom_parse_bytes sample_env b = Inr doc"
      "readability_FromDocument sample_env doc ''http://fakehost/test/page.html'' = (doc', Inr a)"
      "fs W' (metadata_path ''sample'')
         = Some (File (json_text sample_env (metadata sample_env doc' a) [] ''    ''))"
      "map_of (json_members (metadata sample_env doc' a)) ''readerable''
         = Some (JBool (readability_CheckDocument sample_env doc'))"
    by blast
  from *(1,2) have "doc = sample_doc" "doc' = sample_doc" "a = sample_article"
    by (auto simp: sample_env_def)
  with * run pure show ?thesis by simp
qed

subsection \<open>A download that fails\<close>

lemma copy_chunks_ok:
  assumes "\<forall>c\<in>set cs. os_fault E (Write p c) = None" and "fs W p = Some (File c0)"
  shows "snd (copy_chunks E W p cs) = None
     \<and> fs (fst (copy_chunks E W p cs)) p = Some (File (c0 @ concat cs))"
  using assms
proof (induction cs arbitrary: W c0)
  case Nil
  then show ?case by simp
next
  case (Cons c cs)
  obtain W1 where w: "os_Write E W p c = (W1, None)" and f: "fs W1 p = Some (File (c0 @ c))"
    using Cons.prems by (simp add: os_Write_def Let_def)
  from Cons.IH[of W1 "c0 @ c"] Cons.prems f w show ?case by simp
qed

text \<open>
  C3. A download that fails before a response arrives (\<^verbatim>\<open>Get\<close> returns an error) makes
  its request and nothing else: the file tree is as it was. A download that fails while
  the body is read does not discard what it received: \<^verbatim>\<open>os.Create\<close> has created or
  truncated the destination, \<^verbatim>\<open>io.Copy\<close> has written every piece that arrived before
  the error, and \<open>downloadWebPage\<close> returns the error (failed to save file) with these
  bytes left in the file.
\<close>

theorem downloadWebPage_network_failure:
  assumes "nurl_ParseRequestURI E srcURL = None"
  shows "(http_Get E srcURL = Inl e \<longrightarrow>
            downloadWebPage E W srcURL dstPath
              = (emit (HttpGet srcURL) W, Some (Wrap ''failed to fetch URL'' e)))
     \<and> (http_Get E srcURL = Inr resp \<and> body_err resp = Some e
          \<and> snd (os_Create E (os_MkdirAll E (emit (HttpGet srcURL) W) (fp_Dir dstPath)) dstPath) = None
          \<and> (\<forall>c\<in>set (chunks resp). os_fault E (Write dstPath c) = None) \<longrightarrow>
            snd (downloadWebPage E W srcURL dstPath) = Some (Wrap ''failed to save file'' e)
          \<and> fs (fst (downloadWebPage E W srcURL dstPath)) dstPath = Some (File (concat (chunks resp))))"
proof (intro conjI impI)
  assume "http_Get E srcURL = Inl e"
  with assms show "downloadWebPage E W srcURL dstPath
              = (emit (HttpGet srcURL) W, Some (Wrap ''failed to fetch URL'' e))"
    by (simp add: downloadWebPage_def httpClient_Get_def)
next
  assume h: "http_Get E srcURL = Inr resp \<and> body_err resp = Some e
          \<and> snd (os_Create E (os_MkdirAll E (emit (HttpGet srcURL) W) (fp_Dir dstPath)) dstPath) = None
          \<and> (\<forall>c\<in>set (chunks resp). os_fault E (Write dstPath c) = None)"
  let ?W1 = "os_MkdirAll E (emit (HttpGet srcURL) W) (fp_Dir dstPath)"
  obtain W2 where cr: "os_Create E ?W1 dstPath = (W2, None)"
    using h by (metis prod.collapse)
  then have f2: "fs W2 dstPath = Some (File [])"
    by (auto simp: os_Create_def Let_def split: option.splits if_splits)
  from copy_chunks_ok[of "chunks resp" E dstPath W2 "[]"] h f2
  have cc: "snd (copy_chunks E W2 dstPath (chunks resp)) = None"
    "fs (fst (copy_chunks E W2 dstPath (chunks resp))) dstPath = Some (File (concat (chunks resp)))"
    by simp_all
  obtain W3 where c3: "copy_chunks E W2 dstPath (chunks resp) = (W3, None)"
    using cc(1) by (metis prod.collapse)
  with cc(2) have f3: "fs W3 dstPath = Some (File (concat (chunks resp)))" by simp
  from assms h cr c3 f3
  show "snd (downloadWebPage E W srcURL dstPath) = Some (Wrap ''failed to save file'' e)"
    and "fs (fst (downloadWebPage E W srcURL dstPath)) dstPath = Some (File (concat (chunks resp)))"
    by (simp_all add: downloadWebPage_def httpClient_Get_def io_Copy_def)
qed

theorem downloadWebPage_network_failure_witness:
  "downloadWebPage sample_env (start sample_fs) ''ftp://example.com/page'' sample_source_path
     = (\<lparr>fs = sample_fs, trace = [HttpGet ''ftp://example.com/page'']\<rparr>,
        Some (Wrap ''failed to fetch URL'' (Cause ''unsupported protocol scheme'')))
   \<and> snd (downloadWebPage broken_env (start sample_fs) ''http://example.com/page'' sample_source_path)
     = Some (Wrap ''failed to save file'' (Cause ''unexpected EOF''))
   \<and> fs (fst (downloadWebPage broken_env (start sample_fs) ''http://example.com/page'' sample_source_path))
        sample_source_path
     = Some (File ''<article><p>Hello'')"
proof -
  have v1: "nurl_ParseRequestURI sample_env ''ftp://example.com/page'' = None"
    and g1: "http_Get sample_env ''ftp://example.com/page'' = Inl (Cause ''unsupported protocol scheme'')"
    by (simp_all add: sample_env_def)
  have v2: "nurl_ParseRequestURI broken_env ''http://example.com/page'' = None"
    by (simp add: broken_env_def sample_env_def)
  have g2: "http_Get broken_env ''http://example.com/page''
       = Inr \<lparr>chunks = [''<article><p>Hello''], body_err = Some (Cause ''unexpected EOF'')\<rparr>
     \<and> body_err \<lparr>chunks = [''<article><p>Hello''], body_err = Some (Cause ''unexpected EOF'')\<rparr>
       = Some (Cause ''unexpected EOF'')
     \<and> snd (os_Create broken_env (os_MkdirAll broken_env (emit (HttpGet ''http://example.com/page'')
          (start sample_fs)) (fp_Dir sample_source_path)) sample_source_path) = None
     \<and> (\<forall>c\<in>set (chunks \<lparr>chunks = [''<article><p>Hello''], body_err = Some (Cause ''unexpected EOF'')\<rparr>).
          os_fault broken_env (Write sample_source_path c) = None)"
    by (simp add: run_defs sample_defs)
  from downloadWebPage_network_failure[OF v1, where e = "Cause ''unsupported protocol scheme''"
      and W = "start sample_fs" and dstPath = sample_source_path] g1
  have a: "downloadWebPage sample_env (start sample_fs) ''ftp://example.com/page'' sample_source_path
     = (emit (HttpGet ''ftp://example.com/page'') (start sample_fs),
        Some (Wrap ''failed to fetch URL'' (Cause ''unsupported protocol scheme'')))"
    by blast
  from downloadWebPage_network_failure[OF v2, where W = "start sample_fs"
      and dstPath = sample_source_path and e = "Cause ''unexpected EOF''"
      and resp = "\<lparr>chunks = [''<article><p>Hello''], body_err = Some (Cause ''unexpected EOF'')\<rparr>"] g2
  have b: "snd (downloadWebPage broken_env (start sample_fs) ''http://example.com/page'' sample_source_path)
     = Some (Wrap ''failed to save file'' (Cause ''unexpected EOF''))
   \<and> fs (fst (downloadWebPage broken_env (start sample_fs) ''http://example.com/page'' sample_source_path))
        sample_source_path
     = Some (File (concat (chunks \<lparr>chunks = [''<article><p>Hello''], body_err = Some (Cause ''unexpected EOF'')\<rparr>)))"
    by blast
  from a b show ?thesis by (simp add: start_def emit_def)
qed

text \<open>
  The connection breaks after the first piece of the body: \<^verbatim>\<open>source.html\<close> is
  overwritten with that piece, and a later run without a URL finds the file, requests
  nothing and generates the fixture from it.
\<close>

theorem partial_body_left_on_disk:
  "snd (downloadWebPage broken_env (start sample_fs) ''http://example.com/page'' sample_source_path)
     = Some (Wrap ''failed to save file'' (Cause ''unexpected EOF''))
   \<and> fs (fst (downloadWebPage broken_env (start sample_fs) ''http://example.com/page'' sample_source_path))
        sample_source_path
     = Some (File ''<article><p>Hello'')
   \<and> snd (generateTestcase sample_env
        (fst (downloadWebPage broken_env (start sample_fs) ''http://example.com/page'' sample_source_path))
        ''sample'' []) = Nil
   \<and> requests (trace (fst (generateTestcase sample_env
        (fst (downloadWebPage broken_env (start sample_fs) ''http://example.com/page'' sample_source_path))
        ''sample'' []))) = [''http://example.com/page'']"
  by (simp add: run_defs sample_defs)

subsection \<open>Writing the two output files\<close>

text \<open>
  C4. \<open>renderMetadataToFile\<close> returns \<^verbatim>\<open>nil\<close> only after \<^verbatim>\<open>Sync\<close> on its file;
  \<open>renderNodeToFile\<close> returns \<^verbatim>\<open>nil\<close> after creating, writing and closing its file,
  without \<^verbatim>\<open>Sync\<close>.
\<close>

theorem renderNodeToFile_returns_without_sync:
  "(snd (renderNodeToFile E W element f) = None \<longrightarrow>
      trace (fst (renderNodeToFile E W element f))
        = trace W @ [Create f, Write f (html_render_bytes E element), Close f])
   \<and> (snd (renderMetadataToFile E W original a g) = None \<longrightarrow>
      trace (fst (renderMetadataToFile E W original a g))
        = trace W @ [Create g, Write g (json_text E (metadata E original a) [] ''    ''),
                     Sync g, Close g])"
  by (auto simp: renderNodeToFile_def renderMetadataToFile_def json_MarshalIndent_def os_Create_def
        os_Write_def os_Sync_def os_Close_def emit_def Let_def
      split: option.splits if_splits prod.splits)

theorem renderNodeToFile_returns_without_sync_witness:
  "snd (renderNodeToFile sample_env (start sample_fs) (Node sample_article) (html_path ''sample'')) = None
   \<and> trace (fst (renderNodeToFile sample_env (start sample_fs) (Node sample_article) (html_path ''sample'')))
       = [Create (html_path ''sample''), Write (html_path ''sample'') ''<div><p>Hello world</p></div>'',
          Close (html_path ''sample'')]
   \<and> Sync (html_path ''sample'') \<notin> set (trace (fst (renderNodeToFile sample_env (start sample_fs)
         (Node sample_article) (html_path ''sample''))))"
proof -
  have ok: "snd (renderNodeToFile sample_env (start sample_fs) (Node sample_article) (html_path ''sample'')) = None"
    by (simp add: run_defs sample_defs)
  have "html_render_bytes sample_env (Node sample_article) = ''<div><p>Hello world</p></div>''"
    by (simp add: sample_env_def)
  with ok renderNodeToFile_returns_without_sync
         [of sample_env "start sample_fs" "Node sample_article" "html_path ''sample''"]
  show ?thesis by (simp add: start_def)
qed

lemma metadata_marshal:
  "json_text E (metadata E d a) [] ''    '' =
     ''{'' @ [CHR 0x0A] @
     json_lines (map (\<lambda>m. ''    '' @ [CHR 0x22] @ fst m @ [CHR 0x22] @ '': '' @ json_value E (snd m))
                  (json_members (metadata E d a)))
     @ [CHR 0x0A] @ ''}''"
proof -
  have "json_members (metadata E d a) \<noteq> []"
    unfolding metadata_members by simp
  moreover have "json_member_line E [] ''    '' =
      (\<lambda>m. ''    '' @ [CHR 0x22] @ fst m @ [CHR 0x22] @ '': '' @ json_value E (snd m))"
    by (rule ext) (simp add: json_member_line_def)
  ultimately show ?thesis
    by (simp add: json_text_def split: list.splits)
qed

lemma renderMetadataToFile_succeeds_iff:
  "(snd (renderMetadataToFile E W original a f) = None) =
     (snd (os_Create E W f) = None
      \<and> os_fault E (Write f (json_text E (metadata E original a) [] ''    '')) = None
      \<and> os_fault E (Sync f) = None)"
  by (auto simp: renderMetadataToFile_def json_MarshalIndent_def os_Create_def os_Write_def os_Sync_def
        os_Close_def emit_def Let_def
      split: option.splits if_splits prod.splits)

text \<open>
  C5. The object written to \<^verbatim>\<open>expected-metadata.json\<close>. Its members: each of
  \<^verbatim>\<open>title\<close>, \<^verbatim>\<open>byline\<close>, \<^verbatim>\<open>excerpt\<close>, \<^verbatim>\<open>language\<close> and \<^verbatim>\<open>siteName\<close> is a key
  exactly when the article's field is not the empty string, \<^verbatim>\<open>readerable\<close> is always
  a key, and the keys keep the order of the struct. Its text: an opening brace, one line
  per member indented by four spaces, the lines separated by commas, and a closing brace
  on a line of its own. \<open>renderMetadataToFile\<close> returns \<^verbatim>\<open>nil\<close> exactly when the file
  can be created, written and synced, and it then leaves exactly this text in the file;
  after a successful generation the metadata file of the case holds such a text.
\<close>

theorem metadata_json_members:
  "json_members (metadata E original a) =
     (if Title a = [] then [] else [(''title'', JString (Title a))]) @
     (if Byline a = [] then [] else [(''byline'', JString (Byline a))]) @
     (if Excerpt a = [] then [] else [(''excerpt'', JString (Excerpt a))]) @
     (if Language a = [] then [] else [(''language'', JString (Language a))]) @
     (if SiteName a = [] then [] else [(''siteName'', JString (SiteName a))]) @
     [(''readerable'', JBool (readability_CheckDocument E original))]
   \<and> (''title'' \<in> fst ` set (json_members (metadata E original a))) = (Title a \<noteq> [])
   \<and> (''byline'' \<in> fst ` set (json_members (metadata E original a))) = (Byline a \<noteq> [])
   \<and> (''excerpt'' \<in> fst ` set (json_members (metadata E original a))) = (Excerpt a \<noteq> [])
   \<and> (''language'' \<in> fst ` set (json_members (metadata E original a))) = (Language a \<noteq> [])
   \<and> (''siteName'' \<in> fst ` set (json_members (metadata E original a))) = (SiteName a \<noteq> [])
   \<and> ''readerable'' \<in> fst ` set (json_members (metadata E original a))
   \<and> json_MarshalIndent E (metadata E original a) [] ''    '' =
       Inr (''{'' @ [CHR 0x0A] @
       json_lines (map (\<lambda>m. ''    '' @ [CHR 0x22] @ fst m @ [CHR 0x22] @ '': '' @ json_value E (snd m))
                    (json_members (metadata E original a)))
       @ [CHR 0x0A] @ ''}'')
   \<and> (snd (renderMetadataToFile E W original a f) = None \<longrightarrow>
        fs (fst (renderMetadataToFile E W original a f)) f
          = Some (File (json_text E (metadata E original a) [] ''    '')))
   \<and> (snd (renderMetadataToFile E W original a f) = None) =
       (snd (os_Create E W f) = None
        \<and> os_fault E (Write f (json_text E (metadata E original a) [] ''    '')) = None
        \<and> os_fault E (Sync f) = None)
   \<and> (\<forall>W0 W' testName sourceURL. generateTestcase E W0 testName sourceURL = (W', Nil) \<longrightarrow>
        (\<exists>doc' a'. fs W' (metadata_path testName)
           = Some (File (json_text E (metadata E doc' a') [] ''    ''))))"
proof -
  have written: "snd (renderMetadataToFile E W original a f) = None \<longrightarrow>
        fs (fst (renderMetadataToFile E W original a f)) f
          = Some (File (json_text E (metadata E original a) [] ''    ''))"
    using renderMetadataToFile_effect[of E W original a f] by (metis prod.collapse)
  have keys:
    "(''title'' \<in> fst ` set (json_members (metadata E original a))) = (Title a \<noteq> [])"
    "(''byline'' \<in> fst ` set (json_members (metadata E original a))) = (Byline a \<noteq> [])"
    "(''excerpt'' \<in> fst ` set (json_members (metadata E original a))) = (Excerpt a \<noteq> [])"
    "(''language'' \<in> fst ` set (json_members (metadata E original a))) = (Language a \<noteq> [])"
    "(''siteName'' \<in> fst ` set (json_members (metadata E original a))) = (SiteName a \<noteq> [])"
    "''readerable'' \<in> fst ` set (json_members (metadata E original a))"
    unfolding metadata_members by simp_all
  have marshal: "json_MarshalIndent E (metadata E original a) [] ''    '' =
       Inr (''{'' @ [CHR 0x0A] @
       json_lines (map (\<lambda>m. ''    '' @ [CHR 0x22] @ fst m @ [CHR 0x22] @ '': '' @ json_value E (snd m))
                    (json_members (metadata E original a)))
       @ [CHR 0x0A] @ ''}'')"
    using metadata_marshal[of E original a] by (simp add: json_MarshalIndent_def)
  have run: "\<forall>W0 W' testName sourceURL. generateTestcase E W0 testName sourceURL = (W', Nil) \<longrightarrow>
        (\<exists>doc' a'. fs W' (metadata_path testName)
           = Some (File (json_text E (metadata E doc' a') [] ''    '')))"
    using generateTestcase_success by blast
  from keys written metadata_members[of E original a] marshal run
    renderMetadataToFile_succeeds_iff[of E W original a f]
  show ?thesis by blast
qed

theorem metadata_json_members_witness:
  \<open>json_MarshalIndent sample_env (metadata sample_env sample_doc sample_article) [] ''    '' =
     Inr ''{\<newline>    "title": "Hello",\<newline>    "excerpt": "Hello world",\<newline>    "readerable": true\<newline>}''
   \<and> ''byline'' \<notin> fst ` set (json_members (metadata sample_env sample_doc sample_article))
   \<and> snd (renderMetadataToFile sample_env (start sample_fs) sample_doc sample_article
        (metadata_path ''sample'')) = None
   \<and> fs (fst (renderMetadataToFile sample_env (start sample_fs) sample_doc sample_article
        (metadata_path ''sample''))) (metadata_path ''sample'')
     = Some (File ''{\<newline>    "title": "Hello",\<newline>    "excerpt": "Hello world",\<newline>    "readerable": true\<newline>}'')
   \<and> snd (generateTestcase sample_env (start sample_fs) ''sample'' []) = Nil
   \<and> fs (fst (generateTestcase sample_env (start sample_fs) ''sample'' [])) (metadata_path ''sample'')
     = Some (File ''{\<newline>    "title": "Hello",\<newline>    "excerpt": "Hello world",\<newline>    "readerable": true\<newline>}'')\<close>
proof -
  note t = metadata_json_members[of sample_env sample_doc sample_article "start sample_fs" "metadata_path ''sample''"]
  have m: "json_members (metadata sample_env sample_doc sample_article) =
      [(''title'', JString ''Hello''), (''excerpt'', JString ''Hello world''), (''readerable'', JBool True)]"
    using t by (simp add: sample_article_def sample_env_def)
  have "json_MarshalIndent sample_env (metadata sample_env sample_doc sample_article) [] ''    '' =
       Inr (''{'' @ [CHR 0x0A] @
       json_lines (map (\<lambda>m. ''    '' @ [CHR 0x22] @ fst m @ [CHR 0x22] @ '': '' @ json_value sample_env (snd m))
                    (json_members (metadata sample_env sample_doc sample_article)))
       @ [CHR 0x0A] @ ''}'')"
    using t by blast
  then have mi: \<open>json_MarshalIndent sample_env (metadata sample_env sample_doc sample_article) [] ''    '' =
     Inr ''{\<newline>    "title": "Hello",\<newline>    "excerpt": "Hello world",\<newline>    "readerable": true\<newline>}''\<close>
    unfolding m by (simp add: sample_env_def)
  then have lit: \<open>json_text sample_env (metadata sample_env sample_doc sample_article) [] ''    '' =
     ''{\<newline>    "title": "Hello",\<newline>    "excerpt": "Hello world",\<newline>    "readerable": true\<newline>}''\<close>
    by (simp add: json_MarshalIndent_def)
  have nob: "''byline'' \<notin> fst ` set (json_members (metadata sample_env sample_doc sample_article))"
    using t by (simp add: sample_article_def)
  have pre: "snd (os_Create sample_env (start sample_fs) (metadata_path ''sample'')) = None"
    "\<And>b. os_fault sample_env (Write (metadata_path ''sample'') b) = None"
    "os_fault sample_env (Sync (metadata_path ''sample'')) = None"
    by (simp_all add: os_Create_def dir_at_def fp_Dir_def sample_defs start_def emit_def)
  have ok: "snd (renderMetadataToFile sample_env (start sample_fs) sample_doc sample_article
        (metadata_path ''sample'')) = None"
    using t pre by blast
  with t have written: "fs (fst (renderMetadataToFile sample_env (start sample_fs) sample_doc sample_article
        (metadata_path ''sample''))) (metadata_path ''sample'')
     = Some (File (json_text sample_env (metadata sample_env sample_doc sample_article) [] ''    ''))"
    by blast
  have gen: "snd (generateTestcase sample_env (start sample_fs) ''sample'' []) = Nil"
    "fs (fst (generateTestcase sample_env (start sample_fs) ''sample'' [])) (metadata_path ''sample'')
       = Some (File (json_text sample_env (metadata sample_env sample_doc sample_article) [] ''    ''))"
    by (simp_all add: run_defs sample_defs)
  from mi nob ok written gen show ?thesis unfolding lit by simp
qed

subsection \<open>Validation of the source URL\<close>

text \<open>The loop never ends with the message of the validation.\<close>

lemma main_loop_no_url_error:
  "snd (main_loop E W items) \<noteq> Fatal (URLNotValid u e)"
proof (induction items arbitrary: W)
  case Nil
  then show ?case by simp
next
  case (Cons item items)
  then show ?case
    by (simp split: prod.splits option.splits bool.splits ret.splits)
qed

text \<open>
  C6. When \<^verbatim>\<open>nurl.ParseRequestURI\<close> rejects a non-empty source URL, \<open>main\<close> ends
  with a fatal message and the world as it was: nothing is requested and no operation is
  made on a file. The message is the one of the validation (URL ... is not valid), or,
  for an empty test name, the one of the check before it (test name must be defined).
  \<open>downloadWebPage\<close> on such a URL returns before its request as well. The message
  of the validation ends no other run: \<open>main\<close> ends with it exactly when the test name
  is not empty and the validator rejects a non-empty source URL, so a string the
  validator accepts passes, whatever it is.
\<close>

theorem rejected_url_fails_before_io:
  "(sourceURL \<noteq> [] \<and> nurl_ParseRequestURI E sourceURL = Some e \<longrightarrow>
      main E W [a0, testName, sourceURL]
        = (W, Fatal (if testName = [] then NameUndefined else URLNotValid sourceURL e))
      \<and> downloadWebPage E W sourceURL dstPath = (W, Some (Wrap ''failed to parse URL'' e)))
   \<and> ((\<exists>u e'. snd (main E W [a0, testName, sourceURL]) = Fatal (URLNotValid u e'))
        \<longleftrightarrow> testName \<noteq> [] \<and> sourceURL \<noteq> [] \<and> nurl_ParseRequestURI E sourceURL \<noteq> None)"
proof -
  have rejected: "sourceURL \<noteq> [] \<and> nurl_ParseRequestURI E sourceURL = Some e \<longrightarrow>
      main E W [a0, testName, sourceURL]
        = (W, Fatal (if testName = [] then NameUndefined else URLNotValid sourceURL e))
      \<and> downloadWebPage E W sourceURL dstPath = (W, Some (Wrap ''failed to parse URL'' e))"
    by (simp add: main_def downloadWebPage_def)
  have only: "(\<exists>u e'. snd (main E W [a0, testName, sourceURL]) = Fatal (URLNotValid u e'))
        \<longleftrightarrow> testName \<noteq> [] \<and> sourceURL \<noteq> [] \<and> nurl_ParseRequestURI E sourceURL \<noteq> None"
    using main_loop_no_url_error[of E]
    by (auto simp: main_def os_ReadDir_def split: option.splits prod.splits sum.splits ret.splits if_splits)
  from rejected only show ?thesis by blast
qed

theorem rejected_url_fails_before_io_witness:
  "main sample_env (start sample_fs) [''generate-test'', ''sample'', ''not-a-url'']
     = (\<lparr>fs = sample_fs, trace = []\<rparr>,
        Fatal (URLNotValid ''not-a-url'' (Cause ''invalid URI for request'')))
   \<and> (\<exists>u e. snd (main sample_env (start sample_fs) [''generate-test'', ''sample'', ''not-a-url''])
        = Fatal (URLNotValid u e))
   \<and> \<not> (\<exists>u e. snd (main sample_env (start sample_fs) [''generate-test'', ''sample'', ''/x''])
        = Fatal (URLNotValid u e))"
proof -
  have v: "nurl_ParseRequestURI sample_env ''not-a-url'' = Some (Cause ''invalid URI for request'')"
    "nurl_ParseRequestURI sample_env ''/x'' = None"
    by (simp_all add: sample_env_def)
  note t1 = rejected_url_fails_before_io[where E = sample_env and sourceURL = "''not-a-url''"
      and e = "Cause ''invalid URI for request''" and testName = "''sample''"
      and W = "start sample_fs" and ?a0.0 = "''generate-test''"]
  note t2 = rejected_url_fails_before_io[where E = sample_env and sourceURL = "''/x''"
      and testName = "''sample''" and W = "start sample_fs" and ?a0.0 = "''generate-test''"]
  have a: "main sample_env (start sample_fs) [''generate-test'', ''sample'', ''not-a-url'']
     = (\<lparr>fs = sample_fs, trace = []\<rparr>,
        Fatal (URLNotValid ''not-a-url'' (Cause ''invalid URI for request'')))"
    using t1[THEN conjunct1] v by (simp add: start_def)
  have b: "\<exists>u e. snd (main sample_env (start sample_fs) [''generate-test'', ''sample'', ''not-a-url''])
        = Fatal (URLNotValid u e)"
    using t1[THEN conjunct2] v by simp
  have c: "\<not> (\<exists>u e. snd (main sample_env (start sample_fs) [''generate-test'', ''sample'', ''/x''])
        = Fatal (URLNotValid u e))"
    using t2[THEN conjunct2] v by simp
  from a b c show ?thesis by simp
qed

text \<open>
  The validator reads its argument as an absolute URI or as an absolute path, so
  \<^verbatim>\<open>/x\<close>, which is not an absolute URL, passes it. The run of the case
  \<^verbatim>\<open>sample\<close> goes on: it stats the source file, starts the download and fails in the
  request, not in the validation.
\<close>

theorem absolute_path_passes_validation:
  "main sample_env (start sample_fs) [''generate-test'', ''sample'', ''/x'']
     = (\<lparr>fs = sample_fs,
         trace = [Log (Generating ''sample''), Stat sample_source_path,
                  Log (Downloading ''sample'' ''/x''), HttpGet ''/x'']\<rparr>,
        Fatal (GenerateFailed ''sample''
          (Wrap ''failed to download source''
            (Wrap ''failed to fetch URL'' (Cause ''unsupported protocol scheme'')))))"
  by (simp add: run_defs sample_defs)

subsection \<open>Batch mode\<close>

text \<open>
  A run of the loop starts no download and makes no request, and it changes no file
  other than the two output files of the entries it is given.
\<close>

lemma main_loop_quiet:
  assumes "main_loop E W items = (W', out)"
  shows "requests (trace W') = requests (trace W) \<and> downloading (trace W') = downloading (trace W)
    \<and> (\<forall>p. (\<forall>i\<in>set items. p \<noteq> html_path (Name i) \<and> p \<noteq> metadata_path (Name i)) \<longrightarrow> fs W' p = fs W p)"
  using assms
proof (induction items arbitrary: W)
  case Nil
  then show ?case by simp
next
  case (Cons item items)
  let ?sp = "source_path (Name item)"
  let ?W1 = "emit (Stat ?sp) W"
  show ?case
  proof (cases "IsDir item")
    case False
    with Cons.prems have "main_loop E W items = (W', out)" by simp
    from Cons.IH[OF this] show ?thesis by simp
  next
    case True
    note dir = this
    obtain ans where fe: "fileExists E W (fp_Join [''test-pages'', Name item, ''source.html'']) = (?W1, ans)"
      and ans: "snd (fileExists E W ?sp) = ans"
      using fileExists_eq[of E W ?sp] by (simp add: join_three)
    show ?thesis
    proof (cases ans)
      case None
      with dir fe Cons.prems have "W' = ?W1" by simp
      then show ?thesis by simp
    next
      case (Some found)
      show ?thesis
      proof (cases found)
        case False
        with Some dir fe Cons.prems have "main_loop E ?W1 items = (W', out)" by simp
        from Cons.IH[OF this] show ?thesis by simp
      next
        case True
        obtain W2 r where gen: "generateTestcase E ?W1 (Name item) [] = (W2, r)"
          by (cases "generateTestcase E ?W1 (Name item) []")
        have "snd (fileExists E ?W1 ?sp) = Some True"
          using Some True ans by simp
        note eff = generateTestcase_reuse[OF this gen]
        show ?thesis
        proof (cases r)
          case Nil
          with Some True dir fe Cons.prems gen have "main_loop E W2 items = (W', out)" by simp
          from Cons.IH[OF this] eff show ?thesis by simp
        next
          case (Error e)
          with Some True dir fe Cons.prems gen have "W' = W2" by simp
          with eff show ?thesis by simp
        next
          case Panic
          with eff show ?thesis by simp
        qed
      qed
    qed
  qed
qed

lemma qualifies_iff:
  "qualifies E (fs W) item \<longleftrightarrow>
     IsDir item \<and> snd (fileExists E W (source_path (Name item))) = Some True"
  by (simp add: qualifies_def join_three fileExists_snd start_def split: option.splits)

lemma qualifies_cong:
  assumes "\<And>n. F (source_path n) = G (source_path n)"
  shows "qualifies E F item = qualifies E G item"
  using assms by (simp add: qualifies_def join_three fileExists_snd start_def split: option.splits)

lemma regenerated_cong:
  assumes "F (source_path n) = G (source_path n)"
    and "fs W (html_path n) = fs V (html_path n)"
    and "fs W (metadata_path n) = fs V (metadata_path n)"
  shows "regenerated E F W n = regenerated E G V n"
  using assms by (simp add: regenerated_def split: option.splits fnode.splits prod.splits)

lemma outputs_distinct:
  assumes "base_name n" and "base_name m" and "n \<noteq> m"
  shows "html_path n \<noteq> html_path m" "html_path n \<noteq> metadata_path m"
    "metadata_path n \<noteq> html_path m" "metadata_path n \<noteq> metadata_path m"
  using assms by (simp_all add: case_paths_base)

text \<open>
  The loop handles a first part of the listing entry by entry and stops at the entry
  after it, if any: with a fatal message when the generation of that entry returned an
  error, with a panic when its existence check panicked.
\<close>

lemma main_loop_run:
  assumes "main_loop E W items = (W', out)"
  shows "\<exists>pre post. items = pre @ post
      \<and> generated (trace W') = generated (trace W) @ map Name (filter (qualifies E (fs W)) pre)
          @ (case out of Fatal (GenerateFailed n e) \<Rightarrow> [n] | _ \<Rightarrow> [])
      \<and> (out = Returned \<longrightarrow> post = [])
      \<and> (\<forall>f. out = Fatal f \<longrightarrow>
            (\<exists>item rest e V. post = item # rest \<and> qualifies E (fs W) item \<and> f = GenerateFailed (Name item) e
                \<and> generateTestcase E V (Name item) [] = (W', Error e)))
      \<and> (out = Panicked \<longrightarrow>
            (\<exists>item rest. post = item # rest \<and> IsDir item
                \<and> snd (fileExists E W (source_path (Name item))) = None))
      \<and> ((\<forall>i\<in>set items. base_name (Name i)) \<and> distinct (map Name items) \<longrightarrow>
            (\<forall>i\<in>set (filter (qualifies E (fs W)) pre). regenerated E (fs W) W' (Name i)))"
  using assms
proof (induction items arbitrary: W)
  case Nil
  then show ?case by simp
next
  case (Cons item items)
  let ?sp = "source_path (Name item)"
  let ?W1 = "emit (Stat ?sp) W"
  let ?Q = "qualifies E (fs W)"
  show ?case
  proof (cases "IsDir item")
    case False
    with Cons.prems have "main_loop E W items = (W', out)" by simp
    from Cons.IH[OF this] obtain pre post where
      *: "items = pre @ post"
      "generated (trace W') = generated (trace W) @ map Name (filter ?Q pre)
          @ (case out of Fatal (GenerateFailed n e) \<Rightarrow> [n] | _ \<Rightarrow> [])"
      "out = Returned \<longrightarrow> post = []"
      "\<forall>f. out = Fatal f \<longrightarrow>
            (\<exists>item rest e V. post = item # rest \<and> ?Q item \<and> f = GenerateFailed (Name item) e
                \<and> generateTestcase E V (Name item) [] = (W', Error e))"
      "out = Panicked \<longrightarrow>
            (\<exists>item rest. post = item # rest \<and> IsDir item
                \<and> snd (fileExists E W (source_path (Name item))) = None)"
      "(\<forall>i\<in>set items. base_name (Name i)) \<and> distinct (map Name items) \<longrightarrow>
            (\<forall>i\<in>set (filter ?Q pre). regenerated E (fs W) W' (Name i))"
      by blast
    have nq: "\<not> ?Q item" using False by (simp add: qualifies_iff)
    show ?thesis
      apply (rule exI[where x = "item # pre"], rule exI[where x = post])
      using * nq by simp
  next
    case True
    note dir = this
    obtain ans where fe: "fileExists E W (fp_Join [''test-pages'', Name item, ''source.html'']) = (?W1, ans)"
      and ans: "snd (fileExists E W ?sp) = ans"
      using fileExists_eq[of E W ?sp] by (simp add: join_three)
    show ?thesis
    proof (cases ans)
      case None
      with dir fe Cons.prems have stop: "W' = ?W1" "out = Panicked" by simp_all
      show ?thesis
        apply (rule exI[where x = "[]"], rule exI[where x = "item # items"])
        using stop dir ans None by simp
    next
      case (Some found)
      show ?thesis
      proof (cases found)
        case False
        with Some dir fe Cons.prems have "main_loop E ?W1 items = (W', out)" by simp
        from Cons.IH[OF this] have "\<exists>pre post. items = pre @ post
            \<and> generated (trace W') = generated (trace W) @ map Name (filter ?Q pre)
                @ (case out of Fatal (GenerateFailed n e) \<Rightarrow> [n] | _ \<Rightarrow> [])
            \<and> (out = Returned \<longrightarrow> post = [])
            \<and> (\<forall>f. out = Fatal f \<longrightarrow>
                  (\<exists>item rest e V. post = item # rest \<and> ?Q item \<and> f = GenerateFailed (Name item) e
                \<and> generateTestcase E V (Name item) [] = (W', Error e)))
            \<and> (out = Panicked \<longrightarrow>
                  (\<exists>item rest. post = item # rest \<and> IsDir item
                      \<and> snd (fileExists E W (source_path (Name item))) = None))
            \<and> ((\<forall>i\<in>set items. base_name (Name i)) \<and> distinct (map Name items) \<longrightarrow>
                  (\<forall>i\<in>set (filter ?Q pre). regenerated E (fs W) W' (Name i)))"
          by simp
        then obtain pre post where
          *: "items = pre @ post"
          "generated (trace W') = generated (trace W) @ map Name (filter ?Q pre)
              @ (case out of Fatal (GenerateFailed n e) \<Rightarrow> [n] | _ \<Rightarrow> [])"
          "out = Returned \<longrightarrow> post = []"
          "\<forall>f. out = Fatal f \<longrightarrow>
                (\<exists>item rest e V. post = item # rest \<and> ?Q item \<and> f = GenerateFailed (Name item) e
                \<and> generateTestcase E V (Name item) [] = (W', Error e))"
          "out = Panicked \<longrightarrow>
                (\<exists>item rest. post = item # rest \<and> IsDir item
                    \<and> snd (fileExists E W (source_path (Name item))) = None)"
          "(\<forall>i\<in>set items. base_name (Name i)) \<and> distinct (map Name items) \<longrightarrow>
                (\<forall>i\<in>set (filter ?Q pre). regenerated E (fs W) W' (Name i))"
          by blast
        have nq: "\<not> ?Q item" using False Some ans by (simp add: qualifies_iff)
        show ?thesis
          apply (rule exI[where x = "item # pre"], rule exI[where x = post])
          using * nq by simp
      next
        case True
        obtain W2 r where gen: "generateTestcase E ?W1 (Name item) [] = (W2, r)"
          by (cases "generateTestcase E ?W1 (Name item) []")
        have "snd (fileExists E ?W1 ?sp) = Some True"
          using Some True ans by simp
        note eff = generateTestcase_reuse[OF this gen]
        have q: "?Q item" using True Some ans dir by (simp add: qualifies_iff)
        show ?thesis
        proof (cases r)
          case (Error e)
          with Some True dir fe Cons.prems gen
          have stop: "W' = W2" "out = Fatal (GenerateFailed (Name item) e)"
            by simp_all
          show ?thesis
            apply (rule exI[where x = "[]"], rule exI[where x = "item # items"])
            using stop eff q gen Error by auto
        next
          case Panic
          with eff show ?thesis by simp
        next
          case Nil
          with Some True dir fe Cons.prems gen have loop: "main_loop E W2 items = (W', out)" by simp
          have src: "\<And>n. fs W2 (source_path n) = fs W (source_path n)"
            using eff by simp
          have Q2: "\<And>i. qualifies E (fs W2) i = ?Q i"
            by (rule qualifies_cong) (rule src)
          have fe2: "\<And>n. snd (fileExists E W2 (source_path n)) = snd (fileExists E W (source_path n))"
            by (simp add: fileExists_snd src split: option.splits)
          from Cons.IH[OF loop] obtain pre post where
            *: "items = pre @ post"
            "generated (trace W') = generated (trace W2) @ map Name (filter ?Q pre)
                @ (case out of Fatal (GenerateFailed n e) \<Rightarrow> [n] | _ \<Rightarrow> [])"
            "out = Returned \<longrightarrow> post = []"
            "\<forall>f. out = Fatal f \<longrightarrow>
                  (\<exists>item rest e V. post = item # rest \<and> ?Q item \<and> f = GenerateFailed (Name item) e
                \<and> generateTestcase E V (Name item) [] = (W', Error e))"
            "out = Panicked \<longrightarrow>
                  (\<exists>item rest. post = item # rest \<and> IsDir item
                      \<and> snd (fileExists E W (source_path (Name item))) = None)"
            "(\<forall>i\<in>set items. base_name (Name i)) \<and> distinct (map Name items) \<longrightarrow>
                  (\<forall>i\<in>set (filter ?Q pre). regenerated E (fs W2) W' (Name i))"
            unfolding Q2 fe2 by blast
          have reg: "\<forall>i\<in>set (filter ?Q (item # pre)). regenerated E (fs W) W' (Name i)"
            if names: "(\<forall>i\<in>set (item # items). base_name (Name i)) \<and> distinct (map Name (item # items))"
          proof
            fix i assume i: "i \<in> set (filter ?Q (item # pre))"
            show "regenerated E (fs W) W' (Name i)"
            proof (cases "i \<in> set (filter ?Q pre)")
              case True
              with *(6) names have "regenerated E (fs W2) W' (Name i)" by simp
              then show ?thesis
                using regenerated_cong[of "fs W2" "Name i" "fs W" W' W' E] src by simp
            next
              case False
              with i q have [simp]: "i = item" by (auto split: if_splits)
              have r2: "regenerated E (fs W) W2 (Name item)"
                using eff Nil regenerated_cong[of "fs ?W1" "Name item" "fs W" W2 W2 E] by simp
              have other: "\<forall>j\<in>set items. html_path (Name item) \<noteq> html_path (Name j)
                  \<and> html_path (Name item) \<noteq> metadata_path (Name j)
                  \<and> metadata_path (Name item) \<noteq> html_path (Name j)
                  \<and> metadata_path (Name item) \<noteq> metadata_path (Name j)"
              proof
                fix j assume j: "j \<in> set items"
                with names have "base_name (Name item)" "base_name (Name j)" "Name item \<noteq> Name j"
                  by auto
                from outputs_distinct[OF this]
                show "html_path (Name item) \<noteq> html_path (Name j)
                  \<and> html_path (Name item) \<noteq> metadata_path (Name j)
                  \<and> metadata_path (Name item) \<noteq> html_path (Name j)
                  \<and> metadata_path (Name item) \<noteq> metadata_path (Name j)" by simp
              qed
              from main_loop_quiet[OF loop] other
              have "fs W' (html_path (Name item)) = fs W2 (html_path (Name item))"
                "fs W' (metadata_path (Name item)) = fs W2 (metadata_path (Name item))"
                by simp_all
              with r2 show ?thesis
                using regenerated_cong[of "fs W" "Name item" "fs W" W' W2 E] by simp
            qed
          qed
          have g2: "generated (trace W2) = generated (trace W) @ [Name item]"
            using eff by simp
          show ?thesis
            apply (rule exI[where x = "item # pre"], rule exI[where x = post])
            using * q g2 reg by simp
        qed
      qed
    qed
  qed
qed

lemma start_simps [simp]: "fs (start F) = F" "trace (start F) = []"
  by (simp_all add: start_def)

lemma qualifies_regular_file:
  assumes "os_fault E (Stat (source_path (Name item))) = None"
  shows "qualifies E F item \<longleftrightarrow> IsDir item \<and> (\<exists>b. F (source_path (Name item)) = Some (File b))"
  using assms by (simp add: qualifies_def join_three fileExists_snd start_def)

lemma main_all:
  "main E W [a0, ''all''] =
     (case dir_listing E (fp_Join [''test-pages'']) of
        Inl e \<Rightarrow> (emit (ReadDir (fp_Join [''test-pages''])) W, Fatal (ReadDirFailed e))
      | Inr items \<Rightarrow> main_loop E (emit (ReadDir (fp_Join [''test-pages''])) W) items)"
  by (simp add: main_def os_ReadDir_def split: sum.splits)

lemma main_loop_earlier_returned:
  assumes "main_loop E W items = (W', out)"
  shows "\<exists>gs. generated (trace W') = generated (trace W) @ gs
     \<and> (\<forall>n\<in>set (case out of Fatal f \<Rightarrow> butlast gs | _ \<Rightarrow> gs).
           \<exists>V V'. generateTestcase E V n [] = (V', Nil))"
  using assms
proof (induction items arbitrary: W)
  case Nil
  then show ?case by simp
next
  case (Cons item items)
  let ?sp = "source_path (Name item)"
  let ?W1 = "emit (Stat ?sp) W"
  show ?case
  proof (cases "IsDir item")
    case False
    with Cons.prems have "main_loop E W items = (W', out)" by simp
    from Cons.IH[OF this] show ?thesis .
  next
    case True
    note dir = this
    obtain ans where fe: "fileExists E W (fp_Join [''test-pages'', Name item, ''source.html'']) = (?W1, ans)"
      and ans: "snd (fileExists E W ?sp) = ans"
      using fileExists_eq[of E W ?sp] by (simp add: join_three)
    show ?thesis
    proof (cases ans)
      case None
      with dir fe Cons.prems have "W' = ?W1" "out = Panicked" by simp_all
      then show ?thesis by simp
    next
      case (Some found)
      show ?thesis
      proof (cases found)
        case False
        with Some dir fe Cons.prems have "main_loop E ?W1 items = (W', out)" by simp
        from Cons.IH[OF this] show ?thesis by simp
      next
        case True
        obtain W2 r where gen: "generateTestcase E ?W1 (Name item) [] = (W2, r)"
          by (cases "generateTestcase E ?W1 (Name item) []")
        have "snd (fileExists E ?W1 ?sp) = Some True"
          using Some True ans by simp
        note eff = generateTestcase_reuse[OF this gen]
        show ?thesis
        proof (cases r)
          case (Error e)
          with Some True dir fe Cons.prems gen
          have "W' = W2" "out = Fatal (GenerateFailed (Name item) e)" by simp_all
          with eff show ?thesis by simp
        next
          case Panic
          with eff show ?thesis by simp
        next
          case Nil
          with Some True dir fe Cons.prems gen have "main_loop E W2 items = (W', out)" by simp
          from Cons.IH[OF this] obtain gs where
            gs: "generated (trace W') = generated (trace W2) @ gs"
              "\<forall>n\<in>set (case out of Fatal f \<Rightarrow> butlast gs | _ \<Rightarrow> gs).
                 \<exists>V V'. generateTestcase E V n [] = (V', Nil)"
            by blast
          have here: "\<exists>V V'. generateTestcase E V (Name item) [] = (V', Nil)"
            using gen Nil by blast
          have sub: "set (butlast (Name item # gs)) \<subseteq> insert (Name item) (set (butlast gs))"
            by (cases gs) auto
          have "\<forall>n\<in>set (case out of Fatal f \<Rightarrow> butlast (Name item # gs) | _ \<Rightarrow> Name item # gs).
                 \<exists>V V'. generateTestcase E V n [] = (V', Nil)"
          proof (cases out)
            case (Fatal f)
            with gs(2) here sub show ?thesis by (simp del: butlast.simps) blast
          qed (use gs(2) here in auto)
          moreover have "generated (trace W') = generated (trace W) @ Name item # gs"
            using gs(1) eff by simp
          ultimately show ?thesis by blast
        qed
      qed
    qed
  qed
qed

text \<open>
  C8. In batch mode the cases whose generation is started are, in the order of the
  listing, the entries that qualify, up to the entry at which the run stops: all of them
  when the run returns. When the run ends with a fatal message, the message names the
  last case that was started, it carries the error that the generation of this case
  returned, and no later entry is started. For every case started before it the
  generation returned \<^verbatim>\<open>nil\<close>, and the case is regenerated at the end of the run: its
  two output files still hold what its generation wrote.
\<close>

theorem batch_stops_at_first_failure:
  assumes "dir_listing E (fp_Join [''test-pages'']) = Inr items"
    and "\<forall>i\<in>set items. base_name (Name i)" and "distinct (map Name items)"
    and "main E (start F) [a0, ''all''] = (W', out)"
  shows "(\<exists>later. map Name (filter (qualifies E F) items) = generated (trace W') @ later)
     \<and> (out = Returned \<longrightarrow> generated (trace W') = map Name (filter (qualifies E F) items))
     \<and> (\<forall>f. out = Fatal f \<longrightarrow> generated (trace W') \<noteq> []
           \<and> (\<exists>e V. f = GenerateFailed (last (generated (trace W'))) e
                 \<and> generateTestcase E V (last (generated (trace W'))) [] = (W', Error e)))
     \<and> (\<forall>n\<in>set (case out of Fatal f \<Rightarrow> butlast (generated (trace W')) | _ \<Rightarrow> generated (trace W')).
           (\<exists>V V'. generateTestcase E V n [] = (V', Nil)) \<and> regenerated E F W' n)"
proof -
  let ?W1 = "emit (ReadDir (fp_Join [''test-pages''])) (start F)"
  let ?Q = "qualifies E F"
  have loop: "main_loop E ?W1 items = (W', out)"
    using assms(1,4) by (simp add: main_all)
  from main_loop_earlier_returned[OF loop]
  have nil: "\<forall>n\<in>set (case out of Fatal f \<Rightarrow> butlast (generated (trace W')) | _ \<Rightarrow> generated (trace W')).
      \<exists>V V'. generateTestcase E V n [] = (V', Nil)"
    by simp
  from main_loop_run[OF loop] assms(2,3) have "\<exists>pre post. items = pre @ post
    \<and> generated (trace W') = map Name (filter ?Q pre)
        @ (case out of Fatal (GenerateFailed n e) \<Rightarrow> [n] | _ \<Rightarrow> [])
    \<and> (out = Returned \<longrightarrow> post = [])
    \<and> (\<forall>f. out = Fatal f \<longrightarrow>
        (\<exists>item rest e V. post = item # rest \<and> ?Q item \<and> f = GenerateFailed (Name item) e
            \<and> generateTestcase E V (Name item) [] = (W', Error e)))
    \<and> (\<forall>i\<in>set (filter ?Q pre). regenerated E F W' (Name i))"
    by simp blast
  then obtain pre post where
    *: "items = pre @ post"
    "generated (trace W') = map Name (filter ?Q pre)
        @ (case out of Fatal (GenerateFailed n e) \<Rightarrow> [n] | _ \<Rightarrow> [])"
    "out = Returned \<longrightarrow> post = []"
    "\<forall>f. out = Fatal f \<longrightarrow>
        (\<exists>item rest e V. post = item # rest \<and> ?Q item \<and> f = GenerateFailed (Name item) e
            \<and> generateTestcase E V (Name item) [] = (W', Error e))"
    "\<forall>i\<in>set (filter ?Q pre). regenerated E F W' (Name i)"
    by blast
  have main_part: "(\<exists>later. map Name (filter ?Q items) = generated (trace W') @ later)
     \<and> (out = Returned \<longrightarrow> generated (trace W') = map Name (filter ?Q items))
     \<and> (\<forall>f. out = Fatal f \<longrightarrow> generated (trace W') \<noteq> []
           \<and> (\<exists>e V. f = GenerateFailed (last (generated (trace W'))) e
                 \<and> generateTestcase E V (last (generated (trace W'))) [] = (W', Error e)))
     \<and> (\<forall>n\<in>set (case out of Fatal f \<Rightarrow> butlast (generated (trace W')) | _ \<Rightarrow> generated (trace W')).
           regenerated E F W' n)"
  proof (cases out)
    case Returned
    with * show ?thesis by simp
  next
    case Panicked
    with * show ?thesis by simp
  next
    case (Fatal f)
    with *(4) obtain item rest e V where
      f: "post = item # rest" "?Q item" "f = GenerateFailed (Name item) e"
        "generateTestcase E V (Name item) [] = (W', Error e)"
      by blast
    with * Fatal show ?thesis by auto
  qed
  with nil show ?thesis by blast
qed

theorem batch_stops_at_first_failure_witness:
  "snd (main batch_env (start batch_fs) [''generate-test'', ''all''])
     = Fatal (GenerateFailed ''stale'' (Wrap ''failed to parse source'' (Cause ''no content'')))
   \<and> generated (trace (fst (main batch_env (start batch_fs) [''generate-test'', ''all'']))) = [''sample'', ''stale'']
   \<and> map Name (filter (qualifies batch_env batch_fs) batch_listing) = [''sample'', ''stale'', ''zebra'']
   \<and> regenerated batch_env batch_fs (fst (main batch_env (start batch_fs) [''generate-test'', ''all''])) ''sample''"
proof -
  have out: "snd (main batch_env (start batch_fs) [''generate-test'', ''all''])
      = Fatal (GenerateFailed ''stale'' (Wrap ''failed to parse source'' (Cause ''no content'')))"
    by code_simp
  have gen: "generated (trace (fst (main batch_env (start batch_fs) [''generate-test'', ''all''])))
      = [''sample'', ''stale'']"
    by code_simp
  let ?W' = "fst (main batch_env (start batch_fs) [''generate-test'', ''all''])"
  have run: "main batch_env (start batch_fs) [''generate-test'', ''all'']
      = (?W', Fatal (GenerateFailed ''stale'' (Wrap ''failed to parse source'' (Cause ''no content''))))"
    using out by (metis prod.collapse)
  have listing: "dir_listing batch_env (fp_Join [''test-pages'']) = Inr batch_listing"
    by (simp add: batch_env_def)
  have names: "\<forall>i\<in>set batch_listing. base_name (Name i)" "distinct (map Name batch_listing)"
    by (simp_all add: batch_listing_def base_name_def)
  have q: "map Name (filter (qualifies batch_env batch_fs) batch_listing) = [''sample'', ''stale'', ''zebra'']"
    by code_simp
  from batch_stops_at_first_failure[OF listing names run] gen
  have "regenerated batch_env batch_fs ?W' ''sample''" by simp
  with out gen q show ?thesis by simp
qed

lemma main_loop_skips_files:
  assumes "\<forall>i\<in>set pre. \<not> IsDir i"
  shows "main_loop E W (pre @ items) = main_loop E W items"
  using assms by (induction pre) simp_all

text \<open>
  C7. An entry is not always either processed or skipped without an error: at the first
  directory of the listing for which \<^verbatim>\<open>Stat\<close> on its \<^verbatim>\<open>source.html\<close> fails with an
  error other than not-exist, the existence check of the loop panics and the run ends
  there, whatever the entries after it hold.
\<close>

theorem batch_panics_at_unreadable_entry:
  assumes "dir_listing E (fp_Join [''test-pages'']) = Inr (pre @ item # rest)"
    and "\<forall>i\<in>set pre. \<not> IsDir i" and "IsDir item"
    and "os_fault E (Stat (source_path (Name item))) = Some e" and "e \<noteq> NotExist"
  shows "main E W [a0, ''all'']
     = (emit (Stat (source_path (Name item))) (emit (ReadDir (fp_Join [''test-pages''])) W), Panicked)"
proof -
  let ?W1 = "emit (ReadDir (fp_Join [''test-pages''])) W"
  have "snd (fileExists E ?W1 (source_path (Name item))) = None"
    using assms(4,5) by (simp add: fileExists_snd)
  then have "fileExists E ?W1 (fp_Join [''test-pages'', Name item, ''source.html''])
      = (emit (Stat (source_path (Name item))) ?W1, None)"
    by (metis fileExists_fst join_three prod.collapse)
  with assms(3) have "main_loop E ?W1 (item # rest) = (emit (Stat (source_path (Name item))) ?W1, Panicked)"
    by simp
  with assms(1,2) show ?thesis
    by (simp add: main_all main_loop_skips_files)
qed

theorem batch_panics_witness:
  "main unreadable_env (start sample_fs) [''generate-test'', ''all'']
     = (\<lparr>fs = sample_fs,
         trace = [ReadDir (Path False [''test-pages'']),
                  Stat (Path False [''test-pages'', ''empty'', ''source.html''])]\<rparr>,
        Panicked)
   \<and> sample_fs (Path False [''test-pages'', ''empty'', ''source.html'']) = None
   \<and> sample_fs (Path False [''test-pages'', ''sample'', ''source.html'']) = Some (File sample_source)"
proof -
  have l: "dir_listing unreadable_env (fp_Join [''test-pages''])
      = Inr ([\<lparr>Name = ''README.md'', IsDir = False\<rparr>] @ \<lparr>Name = ''empty'', IsDir = True\<rparr>
              # [\<lparr>Name = ''sample'', IsDir = True\<rparr>])"
    by (simp add: sample_defs)
  have p: "source_path ''empty'' = Path False [''test-pages'', ''empty'', ''source.html'']"
    by (simp add: case_paths_base base_name_def)
  have f: "os_fault unreadable_env (Stat (source_path (Name \<lparr>Name = ''empty'', IsDir = True\<rparr>)))
      = Some (Cause ''permission denied'')"
    by (simp add: p unreadable_env_def)
  have tp: "fp_Join [''test-pages''] = Path False [''test-pages'']"
    by (simp add: fp_Join_def join_elems_def)
  from batch_panics_at_unreadable_entry[OF l _ _ f, of "start sample_fs" "''generate-test''"]
  show ?thesis by (simp add: p tp start_def emit_def sample_fs_def)
qed




end
